theory Spec2Isabelle
  imports Complex_Main
begin

section \<open>Values of the JavaScript run time\<close>

text \<open>
  A number is a real. The arithmetic of the program is IEEE double arithmetic: each
  operation gives the exact result rounded to the nearest double (\<open>double\<close>, below).
  Comparisons, minima, maxima and absolute values are exact. NaN, the infinities and
  results beyond the largest double are outside the model. A value parsed from a
  response body is a \<open>json\<close>; \<open>JNull\<close> is JavaScript's \<open>null\<close>, and an object keeps
  its members in the order of the text.
\<close>

datatype json =
    JNull
  | JBool bool
  | JNum real
  | JStr string
  | JArr "json list"
  | JObj "(string \<times> json) list"

text \<open>A thrown value: every failure the handler can meet is an Error object with a message.\<close>

datatype js_error = JsError (message: string)

subsection \<open>Double arithmetic\<close>

text \<open>
  Rounding to the nearest double, ties to even: 53 significant bits, the exponent not
  below -1022 (so the subnormal numbers are multiples of \<open>2^-1074\<close>). \<open>pow2 k\<close> is
  \<open>2^k\<close>, \<open>exponent x\<close> the binary exponent of \<open>x\<close>, \<open>roundEven\<close> the nearest
  integer with ties to even.
\<close>

definition pow2 :: "int \<Rightarrow> real" where
  "pow2 k = (if 0 \<le> k then 2 ^ nat k else 1 / 2 ^ nat (- k))"

definition exponent :: "real \<Rightarrow> int" where
  "exponent x = max \<lfloor>log 2 \<bar>x\<bar>\<rfloor> (- 1022)"

definition roundEven :: "real \<Rightarrow> int" where
  "roundEven y =
     (let f = \<lfloor>y\<rfloor>
      in if y - of_int f < 1 / 2 then f
         else if 1 / 2 < y - of_int f then f + 1
         else if even f then f else f + 1)"

definition double :: "real \<Rightarrow> real" where
  "double x =
     (if x = 0 then 0
      else of_int (roundEven (x / pow2 (exponent x - 52))) * pow2 (exponent x - 52))"

definition fadd :: "real \<Rightarrow> real \<Rightarrow> real" where
  "fadd a b = double (a + b)"

definition fsub :: "real \<Rightarrow> real \<Rightarrow> real" where
  "fsub a b = double (a - b)"

definition fmul :: "real \<Rightarrow> real \<Rightarrow> real" where
  "fmul a b = double (a * b)"

definition fdiv :: "real \<Rightarrow> real \<Rightarrow> real" where
  "fdiv a b = double (a / b)"

text \<open>\<open>Math.PI\<close>: the double nearest to pi.\<close>

definition MATH_PI :: real where
  "MATH_PI = 884279719003555 / 281474976710656"

subsection \<open>The engine\<close>

text \<open>
  What the engine does and the repository does not define. \<open>toStringJS\<close> is the
  conversion of a value that is not a string to a string, \<open>toLocaleStringJS\<close> the
  result of \<open>v.toLocaleString()\<close> on a value that is neither \<open>null\<close> nor
  \<open>undefined\<close> (both can throw), \<open>toFixed2String\<close> the text of \<open>n.toFixed(2)\<close>.
  \<open>nullProperty k\<close> and \<open>undefinedProperty k\<close> are the TypeErrors raised by reading
  the property \<open>k\<close> of \<open>null\<close> and of \<open>undefined\<close>, \<open>notAFunction k\<close> the one raised
  by calling a property \<open>k\<close> that is not a function. \<open>mathCos\<close> is \<open>Math.cos\<close>, which
  the standard leaves to the implementation except that the cosine of zero is one.
\<close>

record js_engine =
  toStringJS :: "json \<Rightarrow> js_error + string"
  toLocaleStringJS :: "json \<Rightarrow> js_error + string"
  toFixed2String :: "real \<Rightarrow> string"
  nullProperty :: "string \<Rightarrow> js_error"
  undefinedProperty :: "string \<Rightarrow> js_error"
  notAFunction :: "string \<Rightarrow> js_error"
  mathCos :: "real \<Rightarrow> real"

subsection \<open>Values\<close>

text \<open>ToBoolean: \<open>null\<close>, \<open>false\<close>, \<open>0\<close> and the empty string are falsy.\<close>

fun truthy :: "json \<Rightarrow> bool" where
  "truthy JNull = False"
| "truthy (JBool b) = b"
| "truthy (JNum n) = (n \<noteq> 0)"
| "truthy (JStr s) = (s \<noteq> [])"
| "truthy (JArr xs) = True"
| "truthy (JObj kvs) = True"

text \<open>
  \<open>v.k\<close>, for the keys the components read (none of them a property of a prototype):
  \<open>None\<close> is \<open>undefined\<close>. Reading a property of \<open>undefined\<close> or of \<open>null\<close>
  throws; of an object with the key repeated, the last member wins; a primitive or an
  array has no such property.
\<close>

fun readProperty :: "js_engine \<Rightarrow> json option \<Rightarrow> string \<Rightarrow> js_error + json option" where
  "readProperty eng None k = Inl (undefinedProperty eng k)"
| "readProperty eng (Some JNull) k = Inl (nullProperty eng k)"
| "readProperty eng (Some (JObj kvs)) k = Inr (map_of (rev kvs) k)"
| "readProperty eng (Some v) k = Inr None"

text \<open>\<open>err.detail\<close>.\<close>

definition detailOf :: "js_engine \<Rightarrow> json \<Rightarrow> js_error + json option" where
  "detailOf eng v = readProperty eng (Some v) ''detail''"

text \<open>
  \<open>v.toFixed(2)\<close> and \<open>v.toLocaleString()\<close>: only a number has \<open>toFixed\<close>; every
  value but \<open>null\<close> and \<open>undefined\<close> has \<open>toLocaleString\<close>.
\<close>

fun callToFixed2 :: "js_engine \<Rightarrow> json option \<Rightarrow> js_error + string" where
  "callToFixed2 eng None = Inl (undefinedProperty eng ''toFixed'')"
| "callToFixed2 eng (Some JNull) = Inl (nullProperty eng ''toFixed'')"
| "callToFixed2 eng (Some (JNum n)) = Inr (toFixed2String eng n)"
| "callToFixed2 eng (Some v) = Inl (notAFunction eng ''toFixed'')"

fun callToLocaleString :: "js_engine \<Rightarrow> json option \<Rightarrow> js_error + string" where
  "callToLocaleString eng None = Inl (undefinedProperty eng ''toLocaleString'')"
| "callToLocaleString eng (Some JNull) = Inl (nullProperty eng ''toLocaleString'')"
| "callToLocaleString eng (Some v) = toLocaleStringJS eng v"

text \<open>Sequencing of steps that can throw.\<close>

definition bindE :: "js_error + 'a \<Rightarrow> ('a \<Rightarrow> js_error + 'b) \<Rightarrow> js_error + 'b" where
  "bindE x f = (case x of Inl e \<Rightarrow> Inl e | Inr v \<Rightarrow> f v)"

text \<open>\<open>new Error(v)\<close>: the message is \<open>v\<close> converted to a string.\<close>

fun newError :: "js_engine \<Rightarrow> json \<Rightarrow> js_error + js_error" where
  "newError eng (JStr s) = Inr (JsError s)"
| "newError eng v = (case toStringJS eng v of Inl e \<Rightarrow> Inl e | Inr s \<Rightarrow> Inr (JsError s))"

section \<open>VisualizationSection: the analysis orchestrator\<close>

record AOIBounds =
  west :: real
  south :: real
  east :: real
  north :: real

text \<open>The argument of \<open>fetch\<close>; \<open>body\<close> is the bounds that \<open>JSON.stringify\<close> serialises.\<close>

record request =
  url :: string
  http_method :: string
  headers :: "(string \<times> string) list"
  body :: AOIBounds

text \<open>
  A response: its status, and what \<open>response.json()\<close> settles to (the parsed body, or
  the failure of reading or parsing it). \<open>ok\<close> is the Fetch standard's: a status in
  200..299.
\<close>

record response =
  status :: nat
  json_body :: "js_error + json"

definition ok :: "response \<Rightarrow> bool" where
  "ok r = (200 \<le> status r \<and> status r \<le> 299)"

datatype fetch_outcome = Rejected js_error | Resolved response

text \<open>The four state variables of the component.\<close>

record vis_state =
  activeTab :: string
  isLoading :: bool
  analysisResult :: json
  error :: "string option"

text \<open>What a handler does, in order: the state setters, the request and the console.\<close>

datatype effect =
    SetActiveTab string
  | SetIsLoading bool
  | SetAnalysisResult json
  | SetError "string option"
  | Fetch request
  | ConsoleError string js_error

fun apply_effect :: "vis_state \<Rightarrow> effect \<Rightarrow> vis_state" where
  "apply_effect s (SetActiveTab t) = s\<lparr>activeTab := t\<rparr>"
| "apply_effect s (SetIsLoading b) = s\<lparr>isLoading := b\<rparr>"
| "apply_effect s (SetAnalysisResult r) = s\<lparr>analysisResult := r\<rparr>"
| "apply_effect s (SetError e) = s\<lparr>error := e\<rparr>"
| "apply_effect s (Fetch q) = s"
| "apply_effect s (ConsoleError t e) = s"

definition run :: "effect list \<Rightarrow> vis_state \<Rightarrow> vis_state" where
  "run es s = foldl apply_effect s es"

fun tabSwitches :: "effect list \<Rightarrow> string list" where
  "tabSwitches [] = []"
| "tabSwitches (SetActiveTab t # es) = t # tabSwitches es"
| "tabSwitches (e # es) = tabSwitches es"

fun requests :: "effect list \<Rightarrow> request list" where
  "requests [] = []"
| "requests (Fetch q # es) = q # requests es"
| "requests (e # es) = requests es"

definition initial_state :: vis_state where
  "initial_state = \<lparr>activeTab = ''aoi'', isLoading = False, analysisResult = JNull, error = None\<rparr>"

definition analyzeRequest :: "AOIBounds \<Rightarrow> request" where
  "analyzeRequest bounds =
     \<lparr>url = ''http://localhost:8000/api/analyze-aoi'', http_method = ''POST'',
      headers = [(''Content-Type'', ''application/json'')], body = bounds\<rparr>"

definition fallbackMessage :: string where
  "fallbackMessage = ''An unknown API error occurred.''"

text \<open>
  \<open>handleAOISelected\<close> is an async function. \<open>handleAOISelected_call\<close> is what it does
  when it is called, up to its first \<open>await\<close> (lines 50-63 and 77-80): with no bounds it
  has finished, with bounds it has issued the request and is suspended.
\<close>

fun handleAOISelected_call :: "AOIBounds option \<Rightarrow> effect list" where
  "handleAOISelected_call (Some bounds) =
     [SetIsLoading True, SetAnalysisResult JNull, SetError None,
      SetActiveTab ''imagery'', Fetch (analyzeRequest bounds)]"
| "handleAOISelected_call None = [SetAnalysisResult JNull, SetError None]"

text \<open>
  The rest of the \<open>try\<close> block once \<open>fetch\<close> has settled (lines 59-70): \<open>Inl\<close> is a
  throw, \<open>Inr\<close> the setters of a normal end. No setter runs between the two awaits.
\<close>

definition tryBlock :: "js_engine \<Rightarrow> fetch_outcome \<Rightarrow> js_error + effect list" where
  "tryBlock eng out =
     (case out of
        Rejected e \<Rightarrow> Inl e
      | Resolved r \<Rightarrow>
          if \<not> ok r then
            (case json_body r of
               Inl e \<Rightarrow> Inl e
             | Inr err \<Rightarrow>
                 (case detailOf eng err of
                    Inl e \<Rightarrow> Inl e
                  | Inr d \<Rightarrow>
                      (case newError eng
                              (case d of
                                 None \<Rightarrow> JStr fallbackMessage
                               | Some v \<Rightarrow> if truthy v then v else JStr fallbackMessage) of
                         Inl e \<Rightarrow> Inl e
                       | Inr e \<Rightarrow> Inl e)))
          else
            (case json_body r of
               Inl e \<Rightarrow> Inl e
             | Inr data \<Rightarrow> Inr [SetAnalysisResult data]))"

definition catchBlock :: "js_error \<Rightarrow> effect list" where
  "catchBlock err = [SetError (Some (message err)), ConsoleError ''Analysis failed:'' err]"

definition finallyBlock :: "effect list" where
  "finallyBlock = [SetIsLoading False]"

text \<open>
  The continuation of the handler after the request has settled: \<open>try\<close>, \<open>catch\<close>,
  \<open>finally\<close>. \<open>Inl\<close> would be a failure that leaves the handler.
\<close>

definition handleAOISelected_settle :: "js_engine \<Rightarrow> fetch_outcome \<Rightarrow> js_error + effect list" where
  "handleAOISelected_settle eng out =
     (case tryBlock eng out of
        Inr es \<Rightarrow> Inr (es @ finallyBlock)
      | Inl err \<Rightarrow> Inr (catchBlock err @ finallyBlock))"

subsection \<open>renderContent\<close>


text \<open>
  \<open>if (error)\<close> passes for a string that is neither \<open>null\<close> nor empty;
  \<open>shownError\<close> is the message then.
\<close>

fun shownError :: "string option \<Rightarrow> string option" where
  "shownError None = None"
| "shownError (Some m) = (if m = [] then None else Some m)"



subsection \<open>The analysis state of the specification\<close>

text \<open>
  The specification speaks of one tagged state. It is read off the state variables with
  the tests the component itself uses: \<open>if (error)\<close> first, then \<open>isLoading\<close>, then
  whether \<open>analysisResult\<close> is truthy.
\<close>

datatype AnalysisState = Idle | Loading | Error string | Success json

definition analysisStateOf :: "vis_state \<Rightarrow> AnalysisState" where
  "analysisStateOf s =
     (case shownError (error s) of
        Some m \<Rightarrow> Error m
      | None \<Rightarrow>
          if isLoading s then Loading
          else if truthy (analysisResult s) then Success (analysisResult s)
          else Idle)"

subsection \<open>The statistics panels\<close>

text \<open>
  The two cards beside the content (lines 116-140), rendered on every tab. The
  expressions are evaluated in the order of the text; \<open>Inl\<close> is a throw during
  rendering. A \<open>CategoryRow\<close> calls \<open>toLocaleString\<close> on its value when it renders,
  after the parent has read the three values.
\<close>

datatype panel_card = Processing | Rows "(string \<times> string) list" | Hint string

definition statisticsCard :: "js_engine \<Rightarrow> vis_state \<Rightarrow> js_error + panel_card" where
  "statisticsCard eng s =
     (if isLoading s then Inr Processing
      else if truthy (analysisResult s) then
        bindE (readProperty eng (Some (analysisResult s)) ''summary'') (\<lambda>summary.
        bindE (readProperty eng summary ''percent_change'') (\<lambda>percent_change.
        bindE (callToFixed2 eng percent_change) (\<lambda>change.
        bindE (readProperty eng (Some (analysisResult s)) ''summary'') (\<lambda>summary'.
        bindE (readProperty eng summary' ''confidence_pct'') (\<lambda>confidence_pct.
        bindE (callToFixed2 eng confidence_pct) (\<lambda>confidence.
        Inr (Rows [(''Change Detected'', change @ ''%''),
                   (''Confidence Level'', confidence @ ''%'')])))))))
      else Inr (Hint ''Select an AOI to see statistics.''))"

definition category :: "js_engine \<Rightarrow> vis_state \<Rightarrow> string \<Rightarrow> js_error + json option" where
  "category eng s k =
     bindE (readProperty eng (Some (analysisResult s)) ''summary'') (\<lambda>summary.
     bindE (readProperty eng summary ''categories'') (\<lambda>categories.
     readProperty eng categories k))"

definition categoriesCard :: "js_engine \<Rightarrow> vis_state \<Rightarrow> js_error + panel_card" where
  "categoriesCard eng s =
     (if isLoading s then Inr Processing
      else if truthy (analysisResult s) then
        bindE (category eng s ''Deforestation'') (\<lambda>deforestation.
        bindE (category eng s ''Urban'') (\<lambda>urban.
        bindE (category eng s ''Agriculture'') (\<lambda>agriculture.
        bindE (callToLocaleString eng deforestation) (\<lambda>d.
        bindE (callToLocaleString eng urban) (\<lambda>u.
        bindE (callToLocaleString eng agriculture) (\<lambda>a.
        Inr (Rows [(''Deforestation'', d @ '' px''), (''Urban Growth'', u @ '' px''),
                   (''Agriculture'', a @ '' px'')])))))))
      else Inr (Hint ''No analysis data available.''))"

definition renderStatistics :: "js_engine \<Rightarrow> vis_state \<Rightarrow> js_error + panel_card \<times> panel_card" where
  "renderStatistics eng s =
     bindE (statisticsCard eng s) (\<lambda>statistics.
     bindE (categoriesCard eng s) (\<lambda>categories.
     Inr (statistics, categories)))"

subsection \<open>Sample values\<close>

text \<open>
  An engine for the examples: its conversions and messages are in the manner of V8's
  on the values the examples use, its cosine is the real cosine rounded to a double. Then the state of
  a component whose request is in flight, a result of the documented shape, and the
  state of a component that holds it with the AOI tab active again.
\<close>

definition sample_engine :: js_engine where
  "sample_engine =
     \<lparr>toStringJS = (\<lambda>v. Inr ''[object Object]''),
      toLocaleStringJS = (\<lambda>v. Inr ''[object Object]''),
      toFixed2String = (\<lambda>n. ''0.00''),
      nullProperty = (\<lambda>k. JsError (''Cannot read properties of null (reading '' @ k @ '')'')),
      undefinedProperty =
        (\<lambda>k. JsError (''Cannot read properties of undefined (reading '' @ k @ '')'')),
      notAFunction = (\<lambda>k. JsError (k @ '' is not a function'')),
      mathCos = (\<lambda>x. double (cos x))\<rparr>"

definition awaiting :: vis_state where
  "awaiting =
     run (handleAOISelected_call (Some \<lparr>west = 0, south = 0, east = 1, north = 1\<rparr>)) initial_state"

definition sample_result :: json where
  "sample_result =
     JObj [(''summary'',
            JObj [(''percent_change'', JNum 0), (''confidence_pct'', JNum 0),
                  (''categories'',
                   JObj [(''Deforestation'', JNum 0), (''Urban'', JNum 0),
                         (''Agriculture'', JNum 0)])]),
           (''overlays'', JObj [])]"

definition viewing :: vis_state where
  "viewing =
     \<lparr>activeTab = ''aoi'', isLoading = False, analysisResult = sample_result, error = None\<rparr>"

section \<open>MapAOISelector: drawing the rectangle\<close>

subsection \<open>The map library\<close>

text \<open>
  Leaflet is a library outside the repository; the part of it the handlers use is
  modelled from its documentation. \<open>L.latLngBounds(a, b)\<close> is the smallest rectangle
  holding both corners, kept as its south-west and north-east corners.
\<close>

record LatLng =
  lat :: real
  lng :: real

record LatLngBounds =
  southWest :: LatLng
  northEast :: LatLng

definition latLngBounds :: "LatLng \<Rightarrow> LatLng \<Rightarrow> LatLngBounds" where
  "latLngBounds a b =
     \<lparr>southWest = \<lparr>lat = min (lat a) (lat b), lng = min (lng a) (lng b)\<rparr>,
      northEast = \<lparr>lat = max (lat a) (lat b), lng = max (lng a) (lng b)\<rparr>\<rparr>"

definition getWest :: "LatLngBounds \<Rightarrow> real" where
  "getWest b = lng (southWest b)"

definition getSouth :: "LatLngBounds \<Rightarrow> real" where
  "getSouth b = lat (southWest b)"

definition getEast :: "LatLngBounds \<Rightarrow> real" where
  "getEast b = lng (northEast b)"

definition getNorth :: "LatLngBounds \<Rightarrow> real" where
  "getNorth b = lat (northEast b)"

definition getCenter :: "LatLngBounds \<Rightarrow> LatLng" where
  "getCenter b =
     \<lparr>lat = fdiv (fadd (lat (southWest b)) (lat (northEast b))) 2,
      lng = fdiv (fadd (lng (southWest b)) (lng (northEast b))) 2\<rparr>"

text \<open>
  The map: whether dragging pans it, the cursor of its container, and the rectangles
  on it. A rectangle object is named by a number; \<open>nextLayer\<close> names the next one made.
\<close>

record leaflet_map =
  dragging :: bool
  cursor :: string
  layers :: "nat \<rightharpoonup> LatLngBounds"
  nextLayer :: nat

definition removeLayer :: "leaflet_map \<Rightarrow> nat \<Rightarrow> leaflet_map" where
  "removeLayer m r = m\<lparr>layers := (layers m)(r := None)\<rparr>"

definition setBounds :: "leaflet_map \<Rightarrow> nat \<Rightarrow> LatLngBounds \<Rightarrow> leaflet_map" where
  "setBounds m r b = (if layers m r = None then m else m\<lparr>layers := (layers m)(r \<mapsto> b)\<rparr>)"

definition addRectangle :: "leaflet_map \<Rightarrow> LatLngBounds \<Rightarrow> nat \<times> leaflet_map" where
  "addRectangle m b =
     (nextLayer m, m\<lparr>layers := (layers m)(nextLayer m \<mapsto> b), nextLayer := Suc (nextLayer m)\<rparr>)"

subsection \<open>The component\<close>

text \<open>
  The state variable \<open>areaKm2\<close> and the refs of the component, once its map is
  mounted; \<open>mapRef\<close> is the map the handlers of the current effect act on. A handler returns the new state and the calls of \<open>onAOISelected\<close> it made,
  in order: \<open>None\<close> is the call with \<open>null\<close>.
\<close>

record selector =
  areaKm2 :: "real option"
  mapRef :: leaflet_map
  rectLayerRef :: "nat option"
  startPointRef :: "LatLng option"
  isDrawingRef :: bool

definition DATA_BOUNDS :: LatLngBounds where
  "DATA_BOUNDS = \<lparr>southWest = \<lparr>lat = 184 / 10, lng = 737 / 10\<rparr>,
                  northEast = \<lparr>lat = 1865 / 100, lng = 74\<rparr>\<rparr>"

text \<open>After the mount effect (lines 33-54): the map with the data boundary drawn on it.\<close>

definition mounted :: selector where
  "mounted =
     \<lparr>areaKm2 = None,
      mapRef = \<lparr>dragging = True, cursor = [], layers = [0 \<mapsto> DATA_BOUNDS], nextLayer = 1\<rparr>,
      rectLayerRef = None, startPointRef = None, isDrawingRef = False\<rparr>"

text \<open>
  The effect depends on \<open>onAOISelected\<close> (line 128). When the parent renders again
  with a new function for it, the cleanup removes the map (lines 124-127) and the effect
  builds a new one on the same container (lines 36-54): dragging pans it, and the data
  boundary is the only rectangle on it. The state variable and the refs stay as they
  were, so \<open>rectLayerRef\<close> can hold a rectangle that is on no map; the cursor is a
  style of the container, which stays.
\<close>

definition remount :: "selector \<Rightarrow> selector" where
  "remount s = s\<lparr>mapRef := (mapRef s)\<lparr>dragging := True, layers := [0 \<mapsto> DATA_BOUNDS]\<rparr>\<rparr>"

definition startDrawing :: "LatLng \<Rightarrow> selector \<Rightarrow> selector \<times> AOIBounds option list" where
  "startDrawing latlng s =
     (let m = (mapRef s)\<lparr>dragging := False, cursor := ''crosshair''\<rparr>
      in (s\<lparr>isDrawingRef := True, startPointRef := Some latlng,
            mapRef := (case rectLayerRef s of Some r \<Rightarrow> removeLayer m r | None \<Rightarrow> m),
            rectLayerRef := None, areaKm2 := None\<rparr>,
          [None]))"

definition updateDrawing :: "LatLng \<Rightarrow> selector \<Rightarrow> selector" where
  "updateDrawing latlng s =
     (case startPointRef s of
        None \<Rightarrow> s
      | Some start \<Rightarrow>
          if \<not> isDrawingRef s then s
          else
            (let bounds = latLngBounds start latlng
             in case rectLayerRef s of
                  Some r \<Rightarrow> s\<lparr>mapRef := setBounds (mapRef s) r bounds\<rparr>
                | None \<Rightarrow>
                    (case addRectangle (mapRef s) bounds of
                       (r, m) \<Rightarrow> s\<lparr>mapRef := m, rectLayerRef := Some r\<rparr>)))"

text \<open>
  \<open>Number(x.toFixed(2))\<close>. \<open>toFixed\<close> prints the multiple of 1/100 nearest to the
  exact value of \<open>x\<close>, a tie going away from zero, and \<open>Number\<close> reads that text as
  the nearest double; from \<open>10^21\<close> on \<open>toFixed\<close> prints the number itself.
\<close>

definition numberToFixed2 :: "real \<Rightarrow> real" where
  "numberToFixed2 x =
     (if 10 ^ 21 \<le> \<bar>x\<bar> then x
      else if x < 0 then double (- (of_int \<lfloor>- x * 100 + 1 / 2\<rfloor> / 100))
      else double (of_int \<lfloor>x * 100 + 1 / 2\<rfloor> / 100))"

definition finishDrawing ::
  "js_engine \<Rightarrow> LatLng \<Rightarrow> selector \<Rightarrow> selector \<times> AOIBounds option list" where
  "finishDrawing eng latlng s =
     (case startPointRef s of
        None \<Rightarrow> (s, [])
      | Some start \<Rightarrow>
          if \<not> isDrawingRef s then (s, [])
          else
            (let m = (mapRef s)\<lparr>dragging := True, cursor := []\<rparr>;
                 bounds = latLngBounds start latlng
             in if getWest bounds = getEast bounds \<or> getSouth bounds = getNorth bounds then
                  (s\<lparr>isDrawingRef := False,
                     mapRef := (case rectLayerRef s of Some r \<Rightarrow> removeLayer m r | None \<Rightarrow> m),
                     rectLayerRef := None\<rparr>,
                   [])
                else
                  (let dLatKm = fmul \<bar>fsub (getNorth bounds) (getSouth bounds)\<bar> 111;
                       dLngKm =
                         fmul (fmul \<bar>fsub (getEast bounds) (getWest bounds)\<bar> 111)
                              (mathCos eng (fdiv (fmul (lat (getCenter bounds)) MATH_PI) 180))
                   in (s\<lparr>isDrawingRef := False, mapRef := m,
                         areaKm2 := Some (numberToFixed2 (fmul dLatKm dLngKm))\<rparr>,
                       [Some \<lparr>west = getWest bounds, south = getSouth bounds,
                              east = getEast bounds, north = getNorth bounds\<rparr>]))))"

definition handleClearAOI :: "selector \<Rightarrow> selector \<times> AOIBounds option list" where
  "handleClearAOI s =
     (s\<lparr>mapRef := (case rectLayerRef s of Some r \<Rightarrow> removeLayer (mapRef s) r | None \<Rightarrow> mapRef s),
        rectLayerRef := None, areaKm2 := None\<rparr>,
      [None])"

text \<open>
  The events of the component: the three mouse events of the map, and a click on the
  Clear button, which is on the page only while an area is shown.
\<close>

datatype ui_event = MouseDown LatLng | MouseMove LatLng | MouseUp LatLng | ClearClick

fun handle :: "js_engine \<Rightarrow> ui_event \<Rightarrow> selector \<Rightarrow> selector \<times> AOIBounds option list" where
  "handle eng (MouseDown p) s = startDrawing p s"
| "handle eng (MouseMove p) s = (updateDrawing p s, [])"
| "handle eng (MouseUp p) s = finishDrawing eng p s"
| "handle eng ClearClick s = (if areaKm2 s = None then (s, []) else handleClearAOI s)"

text \<open>
  The states of a mounted component: after the mount, after an event, and after the
  parent has rendered again, which can happen between any two events.
\<close>

inductive reachable :: "js_engine \<Rightarrow> selector \<Rightarrow> bool" where
  mounted: "reachable eng mounted"
| event: "reachable eng s \<Longrightarrow> reachable eng (fst (handle eng ev s))"
| rerender: "reachable eng s \<Longrightarrow> reachable eng (remount s)"

subsection \<open>The page: the selector under its parent\<close>

text \<open>
  While the AOI tab is active the selector is mounted with \<open>handleAOISelected\<close> as its
  \<open>onAOISelected\<close>. A pointer-down on the map runs \<open>startDrawing\<close>, whose calls of
  \<open>onAOISelected\<close> run the parent's handler. When a state variable of the parent has
  changed, the parent renders again: \<open>handleAOISelected\<close> is a new function (line 49),
  and the selector's effect runs again. When none has changed there is no render.
\<close>

record page =
  parent :: vis_state
  child :: selector

definition pageMouseDown :: "LatLng \<Rightarrow> page \<Rightarrow> page" where
  "pageMouseDown p g =
     (case startDrawing p (child g) of
        (sel, calls) \<Rightarrow>
          (let par = run (concat (map handleAOISelected_call calls)) (parent g)
           in \<lparr>parent = par, child = (if par = parent g then sel else remount sel)\<rparr>))"

subsection \<open>The draw state of the specification\<close>

text \<open>
  Read off the component as it shows it: a draw is in progress while \<open>isDrawingRef\<close>
  is set and a start point is held; an area is committed while \<open>areaKm2\<close> is shown.
\<close>

datatype DrawState = DrawIdle | Drawing LatLng | Drawn real

definition drawStateOf :: "selector \<Rightarrow> DrawState" where
  "drawStateOf s =
     (case (isDrawingRef s, startPointRef s) of
        (True, Some start) \<Rightarrow> Drawing start
      | _ \<Rightarrow> (case areaKm2 s of Some a \<Rightarrow> Drawn a | None \<Rightarrow> DrawIdle))"

subsection \<open>What holds of every state the component reaches\<close>

text \<open>
  While a draw is in progress no area is shown and a start point is held; the only
  rectangles on the map are the data boundary (layer 0, never removed) and the one
  \<open>rectLayerRef\<close> holds.
\<close>

definition selector_inv :: "selector \<Rightarrow> bool" where
  "selector_inv s =
     ((isDrawingRef s \<longrightarrow> areaKm2 s = None \<and> startPointRef s \<noteq> None)
      \<and> (\<forall>r. layers (mapRef s) r \<noteq> None \<longrightarrow> r = 0 \<or> rectLayerRef s = Some r)
      \<and> (\<forall>r. rectLayerRef s = Some r \<longrightarrow> 0 < r)
      \<and> 0 < nextLayer (mapRef s)
      \<and> layers (mapRef s) 0 = Some DATA_BOUNDS)"

text \<open>Two states on the way: a preview being dragged out, and the rectangle committed.\<close>

definition previewing :: selector where
  "previewing =
     fst (handle sample_engine (MouseMove \<lparr>lat = 2, lng = 3\<rparr>)
            (fst (handle sample_engine (MouseDown \<lparr>lat = 1, lng = 1\<rparr>) mounted)))"

definition committed :: selector where
  "committed = fst (handle sample_engine (MouseUp \<lparr>lat = 2, lng = 3\<rparr>) previewing)"

section \<open>Properties of the orchestrator\<close>

lemma run_simps:
  "run [] s = s"
  "run (e # es) s = run es (apply_effect s e)"
  by (simp_all add: run_def)

text \<open>The continuation ends in one of two ways: the result is stored, or the failure is.\<close>

lemma settle_shape:
  "(\<exists>data. handleAOISelected_settle eng out = Inr [SetAnalysisResult data, SetIsLoading False])
   \<or> (\<exists>e. handleAOISelected_settle eng out
              = Inr [SetError (Some (message e)), ConsoleError ''Analysis failed:'' e,
                     SetIsLoading False])"
  by (auto simp add: handleAOISelected_settle_def tryBlock_def catchBlock_def finallyBlock_def
      split: sum.splits fetch_outcome.splits)

text \<open>
  C1, as the code has it. Handling \<open>AOISelected(null)\<close> clears the result and the error
  and leaves \<open>isLoading\<close> and the active tab as they were: the state afterwards is Idle
  when no request was loading, and still Loading when one was.
\<close>

theorem C1_null_selection_clears_result_and_error:
  "analysisResult (run (handleAOISelected_call None) s) = JNull
   \<and> error (run (handleAOISelected_call None) s) = None
   \<and> isLoading (run (handleAOISelected_call None) s) = isLoading s
   \<and> activeTab (run (handleAOISelected_call None) s) = activeTab s
   \<and> analysisStateOf (run (handleAOISelected_call None) s)
       = (if isLoading s then Loading else Idle)"
  by (simp add: run_simps analysisStateOf_def)

text \<open>
  C1 as stated fails from Loading: a selection is made, and \<open>AOISelected(null)\<close> arrives
  while its request is in flight (a new draw is started). The state is still Loading.
\<close>

theorem C1_null_while_loading_counterexample:
  "analysisStateOf
     (run (handleAOISelected_call None)
        (run (handleAOISelected_call (Some \<lparr>west = 0, south = 0, east = 1, north = 1\<rparr>))
           initial_state)) = Loading"
  by (simp add: run_simps analysisStateOf_def initial_state_def)

text \<open>
  C2. Handling \<open>AOISelected(bounds)\<close> sets the active tab once, to Imagery, makes the
  state Loading, and issues one request: a POST whose body is the bounds. Nothing the
  handler does after the request settles switches the tab or issues a request.
  Handling \<open>AOISelected(null)\<close> switches no tab and issues no request.
\<close>

theorem C2_selection_switches_tab_once_and_posts_once:
  "tabSwitches (handleAOISelected_call (Some b)) = [''imagery'']
   \<and> requests (handleAOISelected_call (Some b)) = [analyzeRequest b]
   \<and> http_method (analyzeRequest b) = ''POST''
   \<and> body (analyzeRequest b) = b
   \<and> activeTab (run (handleAOISelected_call (Some b)) s) = ''imagery''
   \<and> analysisStateOf (run (handleAOISelected_call (Some b)) s) = Loading
   \<and> (\<exists>es. handleAOISelected_settle eng out = Inr es \<and> tabSwitches es = [] \<and> requests es = [])
   \<and> tabSwitches (handleAOISelected_call None) = []
   \<and> requests (handleAOISelected_call None) = []
   \<and> activeTab (run (handleAOISelected_call None) s) = activeTab s"
proof -
  have settle:
    "\<exists>es. handleAOISelected_settle eng out = Inr es \<and> tabSwitches es = [] \<and> requests es = []"
    using settle_shape [of eng out] by auto
  have call: "tabSwitches (handleAOISelected_call (Some b)) = [''imagery'']
      \<and> requests (handleAOISelected_call (Some b)) = [analyzeRequest b]
      \<and> activeTab (run (handleAOISelected_call (Some b)) s) = ''imagery''
      \<and> analysisStateOf (run (handleAOISelected_call (Some b)) s) = Loading"
    by (simp add: run_simps analysisStateOf_def)
  have req: "http_method (analyzeRequest b) = ''POST'' \<and> body (analyzeRequest b) = b"
    by (simp add: analyzeRequest_def)
  have null: "tabSwitches (handleAOISelected_call None) = []
      \<and> requests (handleAOISelected_call None) = []
      \<and> activeTab (run (handleAOISelected_call None) s) = activeTab s"
    by (simp add: run_simps)
  from settle call req null show ?thesis by blast
qed

text \<open>What the \<open>try\<close> block throws when the status is outside 200..299.\<close>

lemma tryBlock_not_ok:
  assumes "\<not> ok r"
  shows "\<exists>e. tryBlock eng (Resolved r) = Inl e
    \<and> message e =
        (case json_body r of
           Inl e \<Rightarrow> message e
         | Inr j \<Rightarrow>
             (case detailOf eng j of
                Inl e \<Rightarrow> message e
              | Inr None \<Rightarrow> fallbackMessage
              | Inr (Some (JStr d)) \<Rightarrow> if d = [] then fallbackMessage else d
              | Inr (Some v) \<Rightarrow>
                  if truthy v then (case toStringJS eng v of Inl e \<Rightarrow> message e | Inr m \<Rightarrow> m)
                  else fallbackMessage))"
  using assms
  by (auto simp add: tryBlock_def split: sum.splits option.splits json.splits)

lemma settle_of_throw:
  "tryBlock eng out = Inl e \<Longrightarrow>
   handleAOISelected_settle eng out
     = Inr [SetError (Some (message e)), ConsoleError ''Analysis failed:'' e, SetIsLoading False]"
  by (simp add: handleAOISelected_settle_def catchBlock_def finallyBlock_def)

text \<open>
  C6, as the code has it. When the request resolves with a status outside 200..299,
  the error message is set, by cases on the body. If reading the body as JSON fails,
  it is that failure's message. If the body is the JSON \<open>null\<close>, it is the message of
  the TypeError raised by reading \<open>detail\<close> of \<open>null\<close>. If the body has no
  \<open>detail\<close>, or a falsy one (\<open>null\<close>, \<open>false\<close>, \<open>0\<close>, the empty string), it is the
  fallback. If \<open>detail\<close> is a non-empty string, it is that string. If \<open>detail\<close> is
  any other truthy value, it is that value converted to a string (or the message of
  the failure of that conversion). A status 500 with the body
  \<open>{"detail": "model unavailable"}\<close> gives the state Error with the message
  \<open>model unavailable\<close>.
\<close>

theorem C6_non_2xx_error_message:
  assumes "\<not> ok r"
  shows "\<exists>es m. handleAOISelected_settle eng (Resolved r) = Inr es
       \<and> error (run es s) = Some m
       \<and> isLoading (run es s) = False
       \<and> (m \<noteq> [] \<longrightarrow> analysisStateOf (run es s) = Error m)
       \<and> m = (case json_body r of
                 Inl e \<Rightarrow> message e
               | Inr j \<Rightarrow>
                   (case detailOf eng j of
                      Inl e \<Rightarrow> message e
                    | Inr None \<Rightarrow> fallbackMessage
                    | Inr (Some (JStr d)) \<Rightarrow> if d = [] then fallbackMessage else d
                    | Inr (Some v) \<Rightarrow>
                        if truthy v
                        then (case toStringJS eng v of Inl e \<Rightarrow> message e | Inr m \<Rightarrow> m)
                        else fallbackMessage))
       \<and> (\<forall>e. json_body r = Inl e \<longrightarrow> m = message e)
       \<and> (json_body r = Inr JNull \<longrightarrow> m = message (nullProperty eng ''detail''))
       \<and> (\<forall>j. json_body r = Inr j \<and> detailOf eng j = Inr None \<longrightarrow> m = fallbackMessage)
       \<and> (\<forall>j v. json_body r = Inr j \<and> detailOf eng j = Inr (Some v) \<and> \<not> truthy v \<longrightarrow>
              m = fallbackMessage)
       \<and> (\<forall>j d. json_body r = Inr j \<and> detailOf eng j = Inr (Some (JStr d)) \<and> d \<noteq> [] \<longrightarrow>
              m = d)
       \<and> (\<forall>j v t. json_body r = Inr j \<and> detailOf eng j = Inr (Some v) \<and> truthy v
                \<and> (\<forall>d. v \<noteq> JStr d) \<and> toStringJS eng v = Inr t \<longrightarrow> m = t)
       \<and> (\<forall>j v e. json_body r = Inr j \<and> detailOf eng j = Inr (Some v) \<and> truthy v
                \<and> (\<forall>d. v \<noteq> JStr d) \<and> toStringJS eng v = Inl e \<longrightarrow> m = message e)
       \<and> (json_body r = Inr (JObj [(''detail'', JStr ''model unavailable'')]) \<longrightarrow>
              analysisStateOf (run es s) = Error ''model unavailable'')"
proof -
  from tryBlock_not_ok [OF assms, of eng] obtain e where
    thrown: "tryBlock eng (Resolved r) = Inl e"
    and msg: "message e =
        (case json_body r of
           Inl e \<Rightarrow> message e
         | Inr j \<Rightarrow>
             (case detailOf eng j of
                Inl e \<Rightarrow> message e
              | Inr None \<Rightarrow> fallbackMessage
              | Inr (Some (JStr d)) \<Rightarrow> if d = [] then fallbackMessage else d
              | Inr (Some v) \<Rightarrow>
                  if truthy v then (case toStringJS eng v of Inl e \<Rightarrow> message e | Inr m \<Rightarrow> m)
                  else fallbackMessage))"
    by blast
  define es where
    "es = [SetError (Some (message e)), ConsoleError ''Analysis failed:'' e, SetIsLoading False]"
  have settle: "handleAOISelected_settle eng (Resolved r) = Inr es"
    unfolding es_def using thrown by (rule settle_of_throw)
  have state: "error (run es s) = Some (message e)" "isLoading (run es s) = False"
    by (simp_all add: es_def run_simps)
  have shown: "message e \<noteq> [] \<longrightarrow> analysisStateOf (run es s) = Error (message e)"
    by (simp add: es_def run_simps analysisStateOf_def)
  have parse: "\<forall>x. json_body r = Inl x \<longrightarrow> message e = message x"
    using msg by simp
  have null: "json_body r = Inr JNull \<longrightarrow> message e = message (nullProperty eng ''detail'')"
    using msg by (simp add: detailOf_def)
  have absent: "\<forall>j. json_body r = Inr j \<and> detailOf eng j = Inr None \<longrightarrow> message e = fallbackMessage"
    using msg by auto
  have falsy: "\<forall>j v. json_body r = Inr j \<and> detailOf eng j = Inr (Some v) \<and> \<not> truthy v \<longrightarrow>
              message e = fallbackMessage"
    using msg by (auto split: json.splits)
  have str: "\<forall>j d. json_body r = Inr j \<and> detailOf eng j = Inr (Some (JStr d)) \<and> d \<noteq> [] \<longrightarrow>
              message e = d"
    using msg by auto
  have conv: "\<forall>j v t. json_body r = Inr j \<and> detailOf eng j = Inr (Some v) \<and> truthy v
                \<and> (\<forall>d. v \<noteq> JStr d) \<and> toStringJS eng v = Inr t \<longrightarrow> message e = t"
    using msg by (auto split: json.splits)
  have conv': "\<forall>j v x. json_body r = Inr j \<and> detailOf eng j = Inr (Some v) \<and> truthy v
                \<and> (\<forall>d. v \<noteq> JStr d) \<and> toStringJS eng v = Inl x \<longrightarrow> message e = message x"
    using msg by (auto split: json.splits)
  have example: "json_body r = Inr (JObj [(''detail'', JStr ''model unavailable'')]) \<longrightarrow>
              analysisStateOf (run es s) = Error ''model unavailable''"
    using msg shown by (auto simp add: detailOf_def)
  show ?thesis
    using settle state shown msg parse null absent falsy str conv conv' example by blast
qed

theorem C6_non_2xx_error_message_witness:
  "\<not> ok \<lparr>status = 500, json_body = Inr (JObj [(''detail'', JStr ''model unavailable'')])\<rparr>
   \<and> (\<exists>es. handleAOISelected_settle sample_engine
              (Resolved \<lparr>status = 500, json_body = Inr (JObj [(''detail'', JStr ''model unavailable'')])\<rparr>)
            = Inr es
          \<and> error (run es awaiting) = Some ''model unavailable''
          \<and> analysisStateOf (run es awaiting) = Error ''model unavailable'')
   \<and> \<not> ok \<lparr>status = 404, json_body = Inr (JObj [(''title'', JStr ''Not Found'')])\<rparr>
   \<and> (\<exists>es. handleAOISelected_settle sample_engine
              (Resolved \<lparr>status = 404, json_body = Inr (JObj [(''title'', JStr ''Not Found'')])\<rparr>)
            = Inr es
          \<and> error (run es awaiting) = Some fallbackMessage)
   \<and> \<not> ok \<lparr>status = 502, json_body = Inl (JsError ''Unexpected end of JSON input'')\<rparr>
   \<and> (\<exists>es. handleAOISelected_settle sample_engine
              (Resolved \<lparr>status = 502, json_body = Inl (JsError ''Unexpected end of JSON input'')\<rparr>)
            = Inr es
          \<and> error (run es awaiting) = Some ''Unexpected end of JSON input'')
   \<and> \<not> ok \<lparr>status = 500, json_body = Inr JNull\<rparr>
   \<and> (\<exists>es. handleAOISelected_settle sample_engine (Resolved \<lparr>status = 500, json_body = Inr JNull\<rparr>)
            = Inr es
          \<and> error (run es awaiting) = Some ''Cannot read properties of null (reading detail)'')
   \<and> \<not> ok \<lparr>status = 422, json_body = Inr (JObj [(''detail'', JArr [JObj [(''msg'', JStr ''field required'')]])])\<rparr>
   \<and> (\<exists>es. handleAOISelected_settle sample_engine
              (Resolved \<lparr>status = 422,
                         json_body = Inr (JObj [(''detail'', JArr [JObj [(''msg'', JStr ''field required'')]])])\<rparr>)
            = Inr es
          \<and> error (run es awaiting) = Some ''[object Object]'')"
proof -
  have h1: "\<not> ok \<lparr>status = 500, json_body = Inr (JObj [(''detail'', JStr ''model unavailable'')])\<rparr>"
    by (simp add: ok_def)
  have h2: "\<not> ok \<lparr>status = 404, json_body = Inr (JObj [(''title'', JStr ''Not Found'')])\<rparr>"
    by (simp add: ok_def)
  have h3: "\<not> ok \<lparr>status = 502, json_body = Inl (JsError ''Unexpected end of JSON input'')\<rparr>"
    by (simp add: ok_def)
  have h4: "\<not> ok \<lparr>status = 500, json_body = Inr JNull\<rparr>"
    by (simp add: ok_def)
  have h5: "\<not> ok \<lparr>status = 422, json_body = Inr (JObj [(''detail'', JArr [JObj [(''msg'', JStr ''field required'')]])])\<rparr>"
    by (simp add: ok_def)
  have c1: "\<exists>es. handleAOISelected_settle sample_engine
              (Resolved \<lparr>status = 500, json_body = Inr (JObj [(''detail'', JStr ''model unavailable'')])\<rparr>)
            = Inr es
          \<and> error (run es awaiting) = Some ''model unavailable''
          \<and> analysisStateOf (run es awaiting) = Error ''model unavailable''"
    using C6_non_2xx_error_message [OF h1, of sample_engine awaiting]
    by (auto simp add: detailOf_def)
  have c2: "\<exists>es. handleAOISelected_settle sample_engine
              (Resolved \<lparr>status = 404, json_body = Inr (JObj [(''title'', JStr ''Not Found'')])\<rparr>)
            = Inr es
          \<and> error (run es awaiting) = Some fallbackMessage"
    using C6_non_2xx_error_message [OF h2, of sample_engine awaiting]
    by (auto simp add: detailOf_def)
  have c3: "\<exists>es. handleAOISelected_settle sample_engine
              (Resolved \<lparr>status = 502, json_body = Inl (JsError ''Unexpected end of JSON input'')\<rparr>)
            = Inr es
          \<and> error (run es awaiting) = Some ''Unexpected end of JSON input''"
    using C6_non_2xx_error_message [OF h3, of sample_engine awaiting] by auto
  have c4: "\<exists>es. handleAOISelected_settle sample_engine (Resolved \<lparr>status = 500, json_body = Inr JNull\<rparr>)
            = Inr es
          \<and> error (run es awaiting) = Some ''Cannot read properties of null (reading detail)''"
    using C6_non_2xx_error_message [OF h4, of sample_engine awaiting]
    by (auto simp add: sample_engine_def)
  have c5: "\<exists>es. handleAOISelected_settle sample_engine
              (Resolved \<lparr>status = 422,
                         json_body = Inr (JObj [(''detail'', JArr [JObj [(''msg'', JStr ''field required'')]])])\<rparr>)
            = Inr es
          \<and> error (run es awaiting) = Some ''[object Object]''"
    using C6_non_2xx_error_message [OF h5, of sample_engine awaiting]
    by (auto simp add: detailOf_def sample_engine_def)
  from h1 h2 h3 h4 h5 c1 c2 c3 c4 c5 show ?thesis by blast
qed

text \<open>
  C6 as stated fails when the body of the failed response is not JSON (a gateway's HTML
  page): no \<open>detail\<close> is there, and the message is the parser's, not the fallback.
\<close>

theorem C6_unparsed_body_counterexample:
  "handleAOISelected_settle sample_engine
     (Resolved \<lparr>status = 502, json_body = Inl (JsError ''Unexpected token < in JSON at position 0'')\<rparr>)
   = Inr [SetError (Some ''Unexpected token < in JSON at position 0''),
          ConsoleError ''Analysis failed:'' (JsError ''Unexpected token < in JSON at position 0''),
          SetIsLoading False]
   \<and> analysisStateOf
         (run [SetError (Some ''Unexpected token < in JSON at position 0''),
               ConsoleError ''Analysis failed:'' (JsError ''Unexpected token < in JSON at position 0''),
               SetIsLoading False] awaiting)
       = Error ''Unexpected token < in JSON at position 0''
   \<and> ''Unexpected token < in JSON at position 0'' \<noteq> fallbackMessage"
  by (simp add: handleAOISelected_settle_def tryBlock_def catchBlock_def finallyBlock_def ok_def
        fallbackMessage_def run_simps analysisStateOf_def)



text \<open>
  Whatever the outcome of the request, the handler itself ends normally, with
  \<open>isLoading\<close> false and the tab untouched: a failure sets the error to its message,
  and a status in 200..299 with a JSON body stores that body as the result, whatever
  it is.
\<close>

lemma settle_clears_loading:
  "\<exists>es. handleAOISelected_settle eng out = Inr es
      \<and> isLoading (run es s) = False
      \<and> analysisStateOf (run es s) \<noteq> Loading
      \<and> activeTab (run es s) = activeTab s
      \<and> (case out of
           Rejected e \<Rightarrow>
             error (run es s) = Some (message e) \<and> analysisResult (run es s) = analysisResult s
         | Resolved r \<Rightarrow>
             (case json_body r of
                Inl e \<Rightarrow>
                  error (run es s) = Some (message e) \<and> analysisResult (run es s) = analysisResult s
              | Inr data \<Rightarrow>
                  if ok r then analysisResult (run es s) = data \<and> error (run es s) = error s
                  else (\<exists>m. error (run es s) = Some m) \<and> analysisResult (run es s) = analysisResult s))
      \<and> (\<forall>m. error (run es s) = Some m \<and> m \<noteq> [] \<longrightarrow> analysisStateOf (run es s) = Error m)
      \<and> (error (run es s) = None \<and> truthy (analysisResult (run es s)) \<longrightarrow>
            analysisStateOf (run es s) = Success (analysisResult (run es s)))"
proof (cases out)
  case (Rejected e)
  then have "handleAOISelected_settle eng out
      = Inr [SetError (Some (message e)), ConsoleError ''Analysis failed:'' e, SetIsLoading False]"
    by (simp add: handleAOISelected_settle_def tryBlock_def catchBlock_def finallyBlock_def)
  then show ?thesis using Rejected
    by (auto simp add: run_simps analysisStateOf_def split: option.splits)
next
  case (Resolved r)
  show ?thesis
  proof (cases "json_body r")
    case (Inl e)
    then have "handleAOISelected_settle eng out
        = Inr [SetError (Some (message e)), ConsoleError ''Analysis failed:'' e, SetIsLoading False]"
      using Resolved
      by (simp add: handleAOISelected_settle_def tryBlock_def catchBlock_def finallyBlock_def)
    then show ?thesis using Resolved Inl
      by (auto simp add: run_simps analysisStateOf_def split: option.splits)
  next
    case (Inr data)
    show ?thesis
    proof (cases "ok r")
      case True
      then have "handleAOISelected_settle eng out = Inr [SetAnalysisResult data, SetIsLoading False]"
        using Resolved Inr
        by (simp add: handleAOISelected_settle_def tryBlock_def finallyBlock_def)
      then show ?thesis using Resolved Inr True
        by (auto simp add: run_simps analysisStateOf_def split: option.splits)
    next
      case False
      then have "\<exists>e. tryBlock eng out = Inl e"
        using Resolved by (simp add: tryBlock_def split: sum.split)
      then obtain e where "tryBlock eng out = Inl e" by blast
      then have "handleAOISelected_settle eng out
          = Inr [SetError (Some (message e)), ConsoleError ''Analysis failed:'' e, SetIsLoading False]"
        by (simp add: handleAOISelected_settle_def catchBlock_def finallyBlock_def)
      then show ?thesis using Resolved Inr False
        by (auto simp add: run_simps analysisStateOf_def split: option.splits)
    qed
  qed
qed

text \<open>A result of the documented shape renders without a throw.\<close>

lemma renderStatistics_sample:
  "renderStatistics sample_engine
     \<lparr>activeTab = ''imagery'', isLoading = False, analysisResult = sample_result, error = None\<rparr>
   = Inr (Rows [(''Change Detected'', ''0.00%''), (''Confidence Level'', ''0.00%'')],
          Rows [(''Deforestation'', ''[object Object] px''), (''Urban Growth'', ''[object Object] px''),
                (''Agriculture'', ''[object Object] px'')])"
  by (simp add: renderStatistics_def statisticsCard_def categoriesCard_def category_def bindE_def
        sample_result_def sample_engine_def)

text \<open>
  C8, at the input where the code departs from it. The request resolves with status
  200 and the body \<open>{"summary": {}}\<close>. The handler stores the body as the result
  without a check, so the state is Success and no error is set; rendering the
  statistics panel then throws a TypeError at \<open>percent_change.toFixed\<close> (lines
  120-123): the failure is not converted to the Error state and reaches the rendering
  layer. With the body \<open>null\<close> the stored result is \<open>null\<close> and the state is Idle,
  neither Success nor Error.
\<close>

theorem C8_unchecked_success_body_throws_in_render:
  "handleAOISelected_settle sample_engine
     (Resolved \<lparr>status = 200, json_body = Inr (JObj [(''summary'', JObj [])])\<rparr>)
     = Inr [SetAnalysisResult (JObj [(''summary'', JObj [])]), SetIsLoading False]
   \<and> analysisStateOf
         (run [SetAnalysisResult (JObj [(''summary'', JObj [])]), SetIsLoading False] awaiting)
       = Success (JObj [(''summary'', JObj [])])
   \<and> error (run [SetAnalysisResult (JObj [(''summary'', JObj [])]), SetIsLoading False] awaiting)
       = None
   \<and> renderStatistics sample_engine
         (run [SetAnalysisResult (JObj [(''summary'', JObj [])]), SetIsLoading False] awaiting)
       = Inl (JsError ''Cannot read properties of undefined (reading toFixed)'')
   \<and> handleAOISelected_settle sample_engine (Resolved \<lparr>status = 200, json_body = Inr JNull\<rparr>)
       = Inr [SetAnalysisResult JNull, SetIsLoading False]
   \<and> analysisStateOf (run [SetAnalysisResult JNull, SetIsLoading False] awaiting) = Idle"
  by (simp add: handleAOISelected_settle_def tryBlock_def finallyBlock_def ok_def run_simps
        analysisStateOf_def awaiting_def initial_state_def renderStatistics_def
        statisticsCard_def bindE_def sample_engine_def)

section \<open>Properties of the drawing controller\<close>

text \<open>The invariant holds after the mount and every handler keeps it.\<close>

lemma inv_mounted: "selector_inv mounted"
  by (simp add: selector_inv_def mounted_def)

lemma inv_startDrawing: "selector_inv s \<Longrightarrow> selector_inv (fst (startDrawing p s))"
  by (auto simp add: selector_inv_def startDrawing_def Let_def removeLayer_def split: option.splits)

lemma inv_updateDrawing: "selector_inv s \<Longrightarrow> selector_inv (updateDrawing p s)"
  by (auto simp add: selector_inv_def updateDrawing_def Let_def setBounds_def addRectangle_def
      split: option.splits)

lemma inv_finishDrawing: "selector_inv s \<Longrightarrow> selector_inv (fst (finishDrawing eng p s))"
  by (auto simp add: selector_inv_def finishDrawing_def Let_def removeLayer_def split: option.splits)

lemma inv_handleClearAOI: "selector_inv s \<Longrightarrow> areaKm2 s \<noteq> None \<Longrightarrow> selector_inv (fst (handleClearAOI s))"
  by (auto simp add: selector_inv_def handleClearAOI_def removeLayer_def split: option.splits)

lemma inv_remount: "selector_inv s \<Longrightarrow> selector_inv (remount s)"
  by (auto simp add: selector_inv_def remount_def)

lemma inv_handle: "selector_inv s \<Longrightarrow> selector_inv (fst (handle eng ev s))"
  by (cases ev) (simp_all add: inv_startDrawing inv_updateDrawing inv_finishDrawing inv_handleClearAOI)

lemma reachable_inv: "reachable eng s \<Longrightarrow> selector_inv s"
  by (induction rule: reachable.induct) (simp_all add: inv_mounted inv_handle inv_remount)

lemma reachable_previewing: "reachable sample_engine previewing"
  unfolding previewing_def by (intro reachable.intros)

lemma reachable_committed: "reachable sample_engine committed"
  unfolding committed_def by (intro reachable.intros reachable_previewing)

lemma previewing_fields:
  "isDrawingRef previewing" "startPointRef previewing = Some \<lparr>lat = 1, lng = 1\<rparr>"
  "rectLayerRef previewing = Some 1" "areaKm2 previewing = None"
  "layers (mapRef previewing) 1 = Some (latLngBounds \<lparr>lat = 1, lng = 1\<rparr> \<lparr>lat = 2, lng = 3\<rparr>)"
  "\<not> dragging (mapRef previewing)"
  by (simp_all add: previewing_def mounted_def startDrawing_def updateDrawing_def Let_def
      addRectangle_def)

text \<open>The bounds have an equal pair of edges exactly when the corners share a coordinate.\<close>

lemma degenerate_iff:
  "getWest (latLngBounds a b) = getEast (latLngBounds a b) \<or> getSouth (latLngBounds a b) = getNorth (latLngBounds a b)
   \<longleftrightarrow> lat a = lat b \<or> lng a = lng b"
  by (auto simp add: latLngBounds_def getWest_def getEast_def getSouth_def getNorth_def min_def max_def)

lemma committed_fields:
  "\<not> isDrawingRef committed" "rectLayerRef committed = Some 1"
  "areaKm2 committed \<noteq> None"
  "layers (mapRef committed) 1 = Some (latLngBounds \<lparr>lat = 1, lng = 1\<rparr> \<lparr>lat = 2, lng = 3\<rparr>)"
  "dragging (mapRef committed)"
  "snd (handle sample_engine (MouseUp \<lparr>lat = 2, lng = 3\<rparr>) previewing)
     = [Some \<lparr>west = 1, south = 1, east = 3, north = 2\<rparr>]"
  by (simp_all add: committed_def previewing_def mounted_def startDrawing_def updateDrawing_def
      finishDrawing_def addRectangle_def Let_def
      latLngBounds_def getWest_def getEast_def getSouth_def getNorth_def)

text \<open>What a pointer-up emits, when it emits.\<close>

lemma finishDrawing_emits:
  "Some b \<in> set (snd (finishDrawing eng p s)) \<Longrightarrow>
   \<exists>start. startPointRef s = Some start
     \<and> lat start \<noteq> lat p \<and> lng start \<noteq> lng p
     \<and> west b = min (lng start) (lng p) \<and> east b = max (lng start) (lng p)
     \<and> south b = min (lat start) (lat p) \<and> north b = max (lat start) (lat p)"
  by (auto simp add: finishDrawing_def Let_def latLngBounds_def getWest_def getEast_def
      getSouth_def getNorth_def split: option.splits if_splits)

text \<open>
  C3. When a draw is in progress and the pointer is released on the latitude or on the
  longitude of the start point, the draw is discarded: \<open>onAOISelected\<close> is not called,
  the drawing flag is cleared, dragging pans the map again, and the preview rectangle
  is off the map and forgotten. In every state the component reaches, the controller
  is then Idle and no rectangle but the data boundary is on the map.
\<close>

theorem C3_degenerate_draw_is_discarded:
  assumes "isDrawingRef s" and "startPointRef s = Some start"
    and "lat start = lat p \<or> lng start = lng p"
  shows "snd (finishDrawing eng p s) = []
    \<and> \<not> isDrawingRef (fst (finishDrawing eng p s))
    \<and> dragging (mapRef (fst (finishDrawing eng p s)))
    \<and> rectLayerRef (fst (finishDrawing eng p s)) = None
    \<and> (\<forall>r. rectLayerRef s = Some r \<longrightarrow> layers (mapRef (fst (finishDrawing eng p s))) r = None)
    \<and> areaKm2 (fst (finishDrawing eng p s)) = areaKm2 s
    \<and> (reachable eng s \<longrightarrow>
          drawStateOf (fst (finishDrawing eng p s)) = DrawIdle
          \<and> (\<forall>r. 0 < r \<longrightarrow> layers (mapRef (fst (finishDrawing eng p s))) r = None))"
proof -
  have deg: "getWest (latLngBounds start p) = getEast (latLngBounds start p)
      \<or> getSouth (latLngBounds start p) = getNorth (latLngBounds start p)"
    using assms(3) by (simp add: degenerate_iff)
  have fin: "finishDrawing eng p s =
      (s\<lparr>isDrawingRef := False,
         mapRef := (case rectLayerRef s of
                      Some r \<Rightarrow> removeLayer ((mapRef s)\<lparr>dragging := True, cursor := []\<rparr>) r
                    | None \<Rightarrow> (mapRef s)\<lparr>dragging := True, cursor := []\<rparr>),
         rectLayerRef := None\<rparr>, [])"
    using assms(1,2) deg by (simp add: finishDrawing_def Let_def)
  have basic: "snd (finishDrawing eng p s) = []
    \<and> \<not> isDrawingRef (fst (finishDrawing eng p s))
    \<and> dragging (mapRef (fst (finishDrawing eng p s)))
    \<and> rectLayerRef (fst (finishDrawing eng p s)) = None
    \<and> (\<forall>r. rectLayerRef s = Some r \<longrightarrow> layers (mapRef (fst (finishDrawing eng p s))) r = None)
    \<and> areaKm2 (fst (finishDrawing eng p s)) = areaKm2 s"
    unfolding fin by (simp add: removeLayer_def split: option.splits)
  have reach: "drawStateOf (fst (finishDrawing eng p s)) = DrawIdle
          \<and> (\<forall>r. 0 < r \<longrightarrow> layers (mapRef (fst (finishDrawing eng p s))) r = None)"
    if r: "reachable eng s"
  proof -
    have inv: "selector_inv s" using r by (rule reachable_inv)
    have area: "areaKm2 s = None" using inv assms(1) by (simp add: selector_inv_def)
    have inv': "selector_inv (fst (finishDrawing eng p s))" using inv by (rule inv_finishDrawing)
    have "\<forall>r. 0 < r \<longrightarrow> layers (mapRef (fst (finishDrawing eng p s))) r = None"
      using inv' basic by (auto simp add: selector_inv_def)
    moreover have "drawStateOf (fst (finishDrawing eng p s)) = DrawIdle"
      using basic area by (simp add: drawStateOf_def)
    ultimately show ?thesis by blast
  qed
  from basic reach show ?thesis by blast
qed

theorem C3_degenerate_draw_is_discarded_witness:
  "isDrawingRef previewing \<and> startPointRef previewing = Some \<lparr>lat = 1, lng = 1\<rparr>
   \<and> reachable sample_engine previewing
   \<and> layers (mapRef previewing) 1 \<noteq> None
   \<and> snd (finishDrawing sample_engine \<lparr>lat = 1, lng = 5\<rparr> previewing) = []
   \<and> drawStateOf (fst (finishDrawing sample_engine \<lparr>lat = 1, lng = 5\<rparr> previewing)) = DrawIdle
   \<and> dragging (mapRef (fst (finishDrawing sample_engine \<lparr>lat = 1, lng = 5\<rparr> previewing)))
   \<and> layers (mapRef (fst (finishDrawing sample_engine \<lparr>lat = 1, lng = 5\<rparr> previewing))) 1 = None"
  using C3_degenerate_draw_is_discarded
          [where s = previewing and start = "\<lparr>lat = 1, lng = 1\<rparr>"
             and p = "\<lparr>lat = 1, lng = 5\<rparr>" and eng = sample_engine]
        reachable_previewing previewing_fields
  by simp

text \<open>
  What \<open>startDrawing\<close> has done when it returns, in any state: the rectangle
  \<open>rectLayerRef\<close> holds is off the map and forgotten, the area display is reset,
  dragging no longer pans the map, and \<open>onAOISelected(null)\<close> has been called, once;
  the controller is drawing from the new point.
\<close>

lemma startDrawing_preempts:
  "snd (startDrawing p s) = [None]
   \<and> areaKm2 (fst (startDrawing p s)) = None
   \<and> \<not> dragging (mapRef (fst (startDrawing p s)))
   \<and> rectLayerRef (fst (startDrawing p s)) = None
   \<and> (\<forall>r. rectLayerRef s = Some r \<longrightarrow> layers (mapRef (fst (startDrawing p s))) r = None)
   \<and> drawStateOf (fst (startDrawing p s)) = Drawing p
   \<and> handle eng (MouseDown p) s = startDrawing p s
   \<and> (reachable eng s \<longrightarrow> (\<forall>r. 0 < r \<longrightarrow> layers (mapRef (fst (startDrawing p s))) r = None))"
proof -
  have basic: "snd (startDrawing p s) = [None]
   \<and> areaKm2 (fst (startDrawing p s)) = None
   \<and> \<not> dragging (mapRef (fst (startDrawing p s)))
   \<and> rectLayerRef (fst (startDrawing p s)) = None
   \<and> (\<forall>r. rectLayerRef s = Some r \<longrightarrow> layers (mapRef (fst (startDrawing p s))) r = None)
   \<and> drawStateOf (fst (startDrawing p s)) = Drawing p
   \<and> handle eng (MouseDown p) s = startDrawing p s"
    by (simp add: startDrawing_def Let_def removeLayer_def drawStateOf_def split: option.splits)
  have reach: "\<forall>r. 0 < r \<longrightarrow> layers (mapRef (fst (startDrawing p s))) r = None"
    if r: "reachable eng s"
  proof -
    have "selector_inv (fst (startDrawing p s))"
      using r by (intro inv_startDrawing reachable_inv)
    then show ?thesis using basic by (auto simp add: selector_inv_def)
  qed
  from basic reach show ?thesis by blast
qed

text \<open>
  On the page, the pointer-down leaves the selector as \<open>startDrawing\<close> returned it
  when the parent holds neither a result nor an error: no state variable changes, so
  nothing renders again.
\<close>

lemma pageMouseDown_nothing_stored:
  assumes "analysisResult (parent g) = JNull" and "error (parent g) = None"
  shows "child (pageMouseDown p g) = fst (startDrawing p (child g))"
    and "\<not> dragging (mapRef (child (pageMouseDown p g)))"
    and "parent (pageMouseDown p g) = parent g"
proof -
  have same: "run (handleAOISelected_call None) (parent g) = parent g"
    using assms by (simp add: run_simps)
  show "child (pageMouseDown p g) = fst (startDrawing p (child g))"
    using same by (simp add: pageMouseDown_def startDrawing_def Let_def)
  then show "\<not> dragging (mapRef (child (pageMouseDown p g)))"
    by (simp add: startDrawing_def Let_def removeLayer_def split: option.splits)
  show "parent (pageMouseDown p g) = parent g"
    using same by (simp add: pageMouseDown_def startDrawing_def Let_def)
qed

text \<open>
  When the parent holds a result or an error, the pointer-down clears it, the parent
  renders again and the map is rebuilt: the draw is in progress and dragging pans the
  map.
\<close>

lemma pageMouseDown_something_stored:
  assumes "analysisResult (parent g) \<noteq> JNull \<or> error (parent g) \<noteq> None"
  shows "isDrawingRef (child (pageMouseDown p g))"
    and "startPointRef (child (pageMouseDown p g)) = Some p"
    and "dragging (mapRef (child (pageMouseDown p g)))"
proof -
  have changed: "run (handleAOISelected_call None) (parent g) \<noteq> parent g"
  proof
    assume "run (handleAOISelected_call None) (parent g) = parent g"
    then have "analysisResult (run (handleAOISelected_call None) (parent g)) = analysisResult (parent g)"
      and "error (run (handleAOISelected_call None) (parent g)) = error (parent g)"
      by simp_all
    then show False using assms by (simp add: run_simps)
  qed
  then have rebuilt: "child (pageMouseDown p g) = remount (fst (startDrawing p (child g)))"
    by (simp add: pageMouseDown_def startDrawing_def Let_def)
  show "isDrawingRef (child (pageMouseDown p g))"
    unfolding rebuilt by (simp add: remount_def startDrawing_def Let_def)
  show "startPointRef (child (pageMouseDown p g)) = Some p"
    unfolding rebuilt by (simp add: remount_def startDrawing_def Let_def)
  show "dragging (mapRef (child (pageMouseDown p g)))"
    unfolding rebuilt by (simp add: remount_def)
qed

text \<open>
  C9, at the input where the code departs from it. A result is stored and the AOI tab
  is active again, with the selector newly mounted; the pointer goes down on the map.
  \<open>startDrawing\<close> disables dragging and calls \<open>onAOISelected(null)\<close>, which clears
  the stored result; the parent renders again with a new \<open>handleAOISelected\<close>, and
  the selector's effect, which depends on it, removes the map and builds a new one.
  The draw is in progress (\<open>isDrawingRef\<close> is set and the start point held), and
  dragging pans the map.
\<close>

theorem C9_pointer_down_with_stored_result_rebuilds_map:
  "snd (startDrawing \<lparr>lat = 1, lng = 1\<rparr> mounted) = [None]
   \<and> \<not> dragging (mapRef (fst (startDrawing \<lparr>lat = 1, lng = 1\<rparr> mounted)))
   \<and> analysisStateOf viewing = Success sample_result
   \<and> analysisStateOf (parent (pageMouseDown \<lparr>lat = 1, lng = 1\<rparr> \<lparr>parent = viewing, child = mounted\<rparr>))
       = Idle
   \<and> isDrawingRef (child (pageMouseDown \<lparr>lat = 1, lng = 1\<rparr> \<lparr>parent = viewing, child = mounted\<rparr>))
   \<and> drawStateOf (child (pageMouseDown \<lparr>lat = 1, lng = 1\<rparr> \<lparr>parent = viewing, child = mounted\<rparr>))
       = Drawing \<lparr>lat = 1, lng = 1\<rparr>
   \<and> dragging
         (mapRef (child (pageMouseDown \<lparr>lat = 1, lng = 1\<rparr> \<lparr>parent = viewing, child = mounted\<rparr>)))"
  by (simp add: pageMouseDown_def startDrawing_def Let_def mounted_def viewing_def
        sample_result_def run_simps remount_def analysisStateOf_def drawStateOf_def)

text \<open>
  C10. Every bounds an event handler passes to \<open>onAOISelected\<close> has west < east and
  south < north: only a pointer-up emits bounds, they are the minima and maxima of the
  coordinates of the start point and of the release point, and a rectangle with an
  equal pair of edges is not emitted.
\<close>

theorem C10_emitted_bounds_are_normalized:
  "(\<forall>b. Some b \<in> set (snd (handle eng ev s)) \<longrightarrow> west b < east b \<and> south b < north b)
   \<and> (\<forall>b. Some b \<in> set (snd (handle eng ev s)) \<longrightarrow>
        (\<exists>start p. ev = MouseUp p \<and> startPointRef s = Some start
           \<and> west b = min (lng start) (lng p) \<and> east b = max (lng start) (lng p)
           \<and> south b = min (lat start) (lat p) \<and> north b = max (lat start) (lat p)))"
proof -
  have built: "\<exists>start p. ev = MouseUp p \<and> startPointRef s = Some start
           \<and> lat start \<noteq> lat p \<and> lng start \<noteq> lng p
           \<and> west b = min (lng start) (lng p) \<and> east b = max (lng start) (lng p)
           \<and> south b = min (lat start) (lat p) \<and> north b = max (lat start) (lat p)"
    if emitted: "Some b \<in> set (snd (handle eng ev s))" for b
  proof (cases ev)
    case (MouseUp p)
    then have "Some b \<in> set (snd (finishDrawing eng p s))" using emitted by simp
    from finishDrawing_emits [OF this] MouseUp show ?thesis by auto
  next
    case (MouseDown p)
    then show ?thesis using emitted by (simp add: startDrawing_def Let_def)
  next
    case (MouseMove p)
    then show ?thesis using emitted by simp
  next
    case ClearClick
    then show ?thesis using emitted by (simp add: handleClearAOI_def split: if_splits)
  qed
  have strict: "west b < east b \<and> south b < north b"
    if emitted: "Some b \<in> set (snd (handle eng ev s))" for b
    using built [OF emitted] by (auto simp add: min_def max_def)
  from built strict show ?thesis by blast
qed

theorem C10_emitted_bounds_are_normalized_witness:
  "Some \<lparr>west = 1, south = 1, east = 3, north = 2\<rparr>
     \<in> set (snd (handle sample_engine (MouseUp \<lparr>lat = 2, lng = 3\<rparr>) previewing))
   \<and> west \<lparr>west = 1, south = 1, east = 3, north = 2 :: real\<rparr>
       < east \<lparr>west = 1, south = 1, east = 3, north = 2 :: real\<rparr>
   \<and> south \<lparr>west = 1, south = 1, east = 3, north = 2 :: real\<rparr>
       < north \<lparr>west = 1, south = 1, east = 3, north = 2 :: real\<rparr>"
  using C10_emitted_bounds_are_normalized
          [where ev = "MouseUp \<lparr>lat = 2, lng = 3\<rparr>" and s = previewing and eng = sample_engine]
        committed_fields(6)
  by simp

text \<open>
  C5. Completing a draw from \<open>p\<close> to \<open>e\<close> and completing it from \<open>e\<close> to \<open>p\<close> give
  the same calls of \<open>onAOISelected\<close> (the same bounds) and the same \<open>areaKm2\<close>, both
  for a pointer-up with the start points exchanged and for the whole draw from
  pointer-down on. The outcome is a function of the two points alone: two states that
  agree on the start point, the drawing flag and the area shown give the same calls
  and the same area, whatever else differs.
\<close>

theorem C5_area_and_bounds_are_symmetric:
  "snd (finishDrawing eng e (s\<lparr>startPointRef := Some p\<rparr>)) = snd (finishDrawing eng p (s\<lparr>startPointRef := Some e\<rparr>))
   \<and> areaKm2 (fst (finishDrawing eng e (s\<lparr>startPointRef := Some p\<rparr>)))
       = areaKm2 (fst (finishDrawing eng p (s\<lparr>startPointRef := Some e\<rparr>)))
   \<and> snd (finishDrawing eng e (fst (startDrawing p s))) = snd (finishDrawing eng p (fst (startDrawing e s)))
   \<and> areaKm2 (fst (finishDrawing eng e (fst (startDrawing p s))))
       = areaKm2 (fst (finishDrawing eng p (fst (startDrawing e s))))
   \<and> (\<forall>t. startPointRef t = startPointRef s \<and> isDrawingRef t = isDrawingRef s
            \<and> areaKm2 t = areaKm2 s \<longrightarrow>
          snd (finishDrawing eng e t) = snd (finishDrawing eng e s)
          \<and> areaKm2 (fst (finishDrawing eng e t)) = areaKm2 (fst (finishDrawing eng e s)))"
proof -
  have sym: "latLngBounds p e = latLngBounds e p"
    by (simp add: latLngBounds_def min.commute max.commute)
  have a: "snd (finishDrawing eng e (s\<lparr>startPointRef := Some p\<rparr>)) = snd (finishDrawing eng p (s\<lparr>startPointRef := Some e\<rparr>))
   \<and> areaKm2 (fst (finishDrawing eng e (s\<lparr>startPointRef := Some p\<rparr>)))
       = areaKm2 (fst (finishDrawing eng p (s\<lparr>startPointRef := Some e\<rparr>)))"
    by (simp add: finishDrawing_def Let_def sym)
  have b: "snd (finishDrawing eng e (fst (startDrawing p s))) = snd (finishDrawing eng p (fst (startDrawing e s)))
   \<and> areaKm2 (fst (finishDrawing eng e (fst (startDrawing p s))))
       = areaKm2 (fst (finishDrawing eng p (fst (startDrawing e s))))"
    by (simp add: finishDrawing_def startDrawing_def Let_def sym)
  have c: "\<forall>t. startPointRef t = startPointRef s \<and> isDrawingRef t = isDrawingRef s
            \<and> areaKm2 t = areaKm2 s \<longrightarrow>
          snd (finishDrawing eng e t) = snd (finishDrawing eng e s)
          \<and> areaKm2 (fst (finishDrawing eng e t)) = areaKm2 (fst (finishDrawing eng e s))"
    by (auto simp add: finishDrawing_def Let_def split: option.splits)
  from a b c show ?thesis by blast
qed

theorem C5_area_and_bounds_are_symmetric_witness:
  "startPointRef (previewing\<lparr>mapRef := mapRef mounted\<rparr>) = startPointRef previewing
   \<and> isDrawingRef (previewing\<lparr>mapRef := mapRef mounted\<rparr>) = isDrawingRef previewing
   \<and> areaKm2 (previewing\<lparr>mapRef := mapRef mounted\<rparr>) = areaKm2 previewing
   \<and> snd (finishDrawing sample_engine \<lparr>lat = 2, lng = 3\<rparr> (previewing\<lparr>mapRef := mapRef mounted\<rparr>))
       = snd (finishDrawing sample_engine \<lparr>lat = 2, lng = 3\<rparr> previewing)
   \<and> areaKm2 (fst (finishDrawing sample_engine \<lparr>lat = 2, lng = 3\<rparr> (previewing\<lparr>mapRef := mapRef mounted\<rparr>)))
       = areaKm2 (fst (finishDrawing sample_engine \<lparr>lat = 2, lng = 3\<rparr> previewing))
   \<and> snd (finishDrawing sample_engine \<lparr>lat = 2, lng = 3\<rparr> (fst (startDrawing \<lparr>lat = 1, lng = 1\<rparr> mounted)))
       = snd (finishDrawing sample_engine \<lparr>lat = 1, lng = 1\<rparr> (fst (startDrawing \<lparr>lat = 2, lng = 3\<rparr> mounted)))"
proof -
  have hyp: "startPointRef (previewing\<lparr>mapRef := mapRef mounted\<rparr>) = startPointRef previewing
   \<and> isDrawingRef (previewing\<lparr>mapRef := mapRef mounted\<rparr>) = isDrawingRef previewing
   \<and> areaKm2 (previewing\<lparr>mapRef := mapRef mounted\<rparr>) = areaKm2 previewing"
    by simp
  have same: "snd (finishDrawing sample_engine \<lparr>lat = 2, lng = 3\<rparr> (previewing\<lparr>mapRef := mapRef mounted\<rparr>))
       = snd (finishDrawing sample_engine \<lparr>lat = 2, lng = 3\<rparr> previewing)
   \<and> areaKm2 (fst (finishDrawing sample_engine \<lparr>lat = 2, lng = 3\<rparr> (previewing\<lparr>mapRef := mapRef mounted\<rparr>)))
       = areaKm2 (fst (finishDrawing sample_engine \<lparr>lat = 2, lng = 3\<rparr> previewing))"
    using hyp C5_area_and_bounds_are_symmetric
          [where e = "\<lparr>lat = 2, lng = 3\<rparr>" and s = previewing and p = "\<lparr>lat = 1, lng = 1\<rparr>"
             and eng = sample_engine]
    by blast
  have swap: "snd (finishDrawing sample_engine \<lparr>lat = 2, lng = 3\<rparr> (fst (startDrawing \<lparr>lat = 1, lng = 1\<rparr> mounted)))
       = snd (finishDrawing sample_engine \<lparr>lat = 1, lng = 1\<rparr> (fst (startDrawing \<lparr>lat = 2, lng = 3\<rparr> mounted)))"
    using C5_area_and_bounds_are_symmetric
          [where e = "\<lparr>lat = 2, lng = 3\<rparr>" and s = mounted and p = "\<lparr>lat = 1, lng = 1\<rparr>"
             and eng = sample_engine]
    by blast
  from hyp same swap show ?thesis by blast
qed

section \<open>The area of the rectangle\<close>

subsection \<open>Rounding to a double\<close>

lemma pow2_powr: "pow2 k = 2 powr (of_int k)"
  by (simp add: pow2_def powr_int)

lemma pow2_pos: "0 < pow2 k"
  by (simp add: pow2_def)

lemma pow2_add: "pow2 (j + k) = pow2 j * pow2 k"
  by (simp add: pow2_powr powr_add)

lemma exponent_eq:
  assumes "pow2 e \<le> \<bar>x\<bar>" "\<bar>x\<bar> < pow2 (e + 1)" "- 1022 \<le> e"
  shows "exponent x = e"
proof -
  have pos: "0 < \<bar>x\<bar>" using assms(1) pow2_pos [of e] by linarith
  have "\<lfloor>log 2 \<bar>x\<bar>\<rfloor> = e"
    using assms(1,2) pos by (simp add: floor_log_eq_powr_iff pow2_powr)
  then show ?thesis using assms(3) by (simp add: exponent_def)
qed

lemma double_eval:
  assumes "pow2 e \<le> \<bar>x\<bar>" "\<bar>x\<bar> < pow2 (e + 1)" "- 1022 \<le> e"
  shows "double x = of_int (roundEven (x / pow2 (e - 52))) * pow2 (e - 52)"
proof -
  have "x \<noteq> 0" using assms(1) pow2_pos [of e] by auto
  then show ?thesis using exponent_eq [OF assms] by (simp add: double_def)
qed

lemma roundEven_error: "\<bar>of_int (roundEven y) - y\<bar> \<le> 1 / 2"
proof -
  have "of_int \<lfloor>y\<rfloor> \<le> y" "y < of_int \<lfloor>y\<rfloor> + 1" by linarith+
  then show ?thesis by (auto simp add: roundEven_def Let_def) 
qed

lemma double_error:
  assumes "pow2 (- 1022) \<le> \<bar>x\<bar>"
  shows "\<bar>double x - x\<bar> \<le> \<bar>x\<bar> / 2 ^ 53"
proof -
  have pos: "0 < \<bar>x\<bar>" using assms pow2_pos [of "- 1022"] by linarith
  then have nz: "x \<noteq> 0" by auto
  define e where "e = \<lfloor>log 2 \<bar>x\<bar>\<rfloor>"
  have "pow2 e \<le> \<bar>x\<bar> \<and> \<bar>x\<bar> < pow2 (e + 1)"
    using pos floor_log_eq_powr_iff [of "\<bar>x\<bar>" 2 e] by (simp add: e_def pow2_powr)
  then have le: "pow2 e \<le> \<bar>x\<bar>" and lt: "\<bar>x\<bar> < pow2 (e + 1)" by auto
  have "- 1022 \<le> e"
  proof (rule ccontr)
    assume "\<not> - 1022 \<le> e"
    then have "e + 1 \<le> - 1022" by simp
    then have "pow2 (e + 1) \<le> pow2 (- 1022)" by (simp add: pow2_powr)
    then show False using lt assms by linarith
  qed
  then have ex: "exponent x = e" by (simp add: exponent_def e_def)
  define u where "u = pow2 (e - 52)"
  have upos: "0 < u" by (simp add: u_def pow2_pos)
  have uval: "u = pow2 e / 2 ^ 52"
    using pow2_add [of e "- 52"] by (simp add: u_def pow2_def)
  have d: "double x = of_int (roundEven (x / u)) * u"
    using nz ex by (simp add: double_def u_def)
  have "of_int (roundEven (x / u)) * u - x = (of_int (roundEven (x / u)) - x / u) * u"
    using upos by (simp add: field_simps)
  then have "\<bar>of_int (roundEven (x / u)) * u - x\<bar> = \<bar>of_int (roundEven (x / u)) - x / u\<bar> * u"
    using upos by (simp add: abs_mult)
  also have "\<dots> \<le> 1 / 2 * u"
    using roundEven_error [of "x / u"] upos by (intro mult_right_mono) auto
  also have "\<dots> = pow2 e / 2 ^ 53" by (simp add: uval)
  also have "\<dots> \<le> \<bar>x\<bar> / 2 ^ 53" using le by (simp add: divide_right_mono)
  finally show ?thesis unfolding d .
qed

text \<open>Evaluating \<open>double\<close> at a number whose binary exponent is known.\<close>

lemma double_eq:
  assumes "pow2 e \<le> \<bar>x\<bar>" and "\<bar>x\<bar> < pow2 (e + 1)" and "- 1022 \<le> e"
    and "x / pow2 (e - 52) = q" and "roundEven q = m" and "of_int m * pow2 (e - 52) = y"
  shows "double x = y"
  using double_eval [OF assms(1-3)] assms(4-6) by simp

lemma pow2_small: "pow2 (- 1022) \<le> 1 / 1024"
proof -
  have "pow2 (- 1022) \<le> pow2 (- 10)" by (simp add: pow2_powr)
  then show ?thesis by (simp add: pow2_def)
qed

lemma double_between:
  assumes "1 / 1024 \<le> lo" and "lo \<le> x" and "x \<le> hi"
  shows "lo - hi / 2 ^ 53 \<le> double x" and "double x \<le> hi + hi / 2 ^ 53"
proof -
  have pos: "0 < x" using assms by linarith
  have "pow2 (- 1022) \<le> \<bar>x\<bar>" using pow2_small assms by linarith
  then have "\<bar>double x - x\<bar> \<le> \<bar>x\<bar> / 2 ^ 53" by (rule double_error)
  moreover have "\<bar>x\<bar> / 2 ^ 53 \<le> hi / 2 ^ 53" using pos assms(3) by (simp add: divide_right_mono)
  ultimately have "\<bar>double x - x\<bar> \<le> hi / 2 ^ 53" by linarith
  then show "lo - hi / 2 ^ 53 \<le> double x" and "double x \<le> hi + hi / 2 ^ 53"
    using assms by linarith+
qed

text \<open>The error of \<open>double\<close> at any number, the subnormal range included.\<close>

lemma double_error_any: "\<bar>double x - x\<bar> \<le> (\<bar>x\<bar> + 1) / 2 ^ 53"
proof (cases "pow2 (- 1022) \<le> \<bar>x\<bar>")
  case True
  then have "\<bar>double x - x\<bar> \<le> \<bar>x\<bar> / 2 ^ 53" by (rule double_error)
  also have "\<dots> \<le> (\<bar>x\<bar> + 1) / 2 ^ 53" by (simp add: divide_right_mono)
  finally show ?thesis .
next
  case False
  show ?thesis
  proof (cases "x = 0")
    case True
    then show ?thesis by (simp add: double_def)
  next
    case nz: False
    have small: "\<bar>x\<bar> < 2 powr (- 1022)" using False by (simp add: pow2_powr)
    have pos: "0 < \<bar>x\<bar>" using nz by simp
    have "log 2 \<bar>x\<bar> < - 1022" using small pos by (simp add: log_less_iff)
    then have "\<lfloor>log 2 \<bar>x\<bar>\<rfloor> \<le> - 1022" by linarith
    then have ex: "exponent x = - 1022" by (simp add: exponent_def)
    define u where "u = pow2 (- 1074)"
    have upos: "0 < u" by (simp add: u_def pow2_pos)
    have d: "double x = of_int (roundEven (x / u)) * u"
      using nz ex by (simp add: double_def u_def)
    have "of_int (roundEven (x / u)) * u - x = (of_int (roundEven (x / u)) - x / u) * u"
      using upos by (simp add: field_simps)
    then have "\<bar>of_int (roundEven (x / u)) * u - x\<bar> = \<bar>of_int (roundEven (x / u)) - x / u\<bar> * u"
      using upos by (simp add: abs_mult)
    also have "\<dots> \<le> 1 / 2 * u"
      using roundEven_error [of "x / u"] upos by (intro mult_right_mono) auto
    also have "\<dots> \<le> 1 / 2 ^ 53"
    proof -
      have "u \<le> pow2 (- 52)" by (simp add: u_def pow2_powr)
      then show ?thesis by (simp add: pow2_def)
    qed
    also have "\<dots> \<le> (\<bar>x\<bar> + 1) / 2 ^ 53" by (simp add: divide_right_mono)
    finally show ?thesis unfolding d .
  qed
qed

lemma sample_engine_cosine: "\<bar>mathCos sample_engine x - cos x\<bar> \<le> 1 / 10 ^ 6"
proof -
  have "\<bar>double (cos x) - cos x\<bar> \<le> (\<bar>cos x\<bar> + 1) / 2 ^ 53" by (rule double_error_any)
  also have "\<dots> \<le> (1 + 1) / 2 ^ 53" by (intro divide_right_mono add_right_mono) auto
  also have "\<dots> \<le> 1 / 10 ^ 6" by simp
  finally show ?thesis by (simp add: sample_engine_def)
qed

subsection \<open>Bounds on the cosine\<close>

text \<open>
  Taylor polynomials bound the cosine from both sides on the non-negative reals; each
  bound follows from the one before, whose difference is its derivative.
\<close>

lemma cos_lower_2:
  fixes x :: real
  assumes "0 \<le> x"
  shows "1 - x\<^sup>2 / 2 \<le> cos x"
proof -
  define f where "f = (\<lambda>u::real. cos u - 1 + u\<^sup>2 / 2)"
  have d: "\<exists>y. (f has_real_derivative y) (at u) \<and> 0 \<le> y" if "0 \<le> u" "u \<le> x" for u
  proof -
    have "(f has_real_derivative (u - sin u)) (at u)"
      unfolding f_def by (auto intro!: derivative_eq_intros)
    moreover have "0 \<le> u - sin u" using sin_x_le_x [OF that(1)] by simp
    ultimately show ?thesis by blast
  qed
  have "f 0 \<le> f x" by (rule DERIV_nonneg_imp_nondecreasing [OF assms d])
  then show ?thesis by (simp add: f_def)
qed

lemma sin_lower_3:
  fixes x :: real
  assumes "0 \<le> x"
  shows "x - x ^ 3 / 6 \<le> sin x"
proof -
  define f where "f = (\<lambda>u::real. sin u - u + u ^ 3 / 6)"
  have d: "\<exists>y. (f has_real_derivative y) (at u) \<and> 0 \<le> y" if "0 \<le> u" "u \<le> x" for u
  proof -
    have "(f has_real_derivative (cos u - 1 + u\<^sup>2 / 2)) (at u)"
      unfolding f_def by (auto intro!: derivative_eq_intros simp add: power2_eq_square)
    moreover have "0 \<le> cos u - 1 + u\<^sup>2 / 2" using cos_lower_2 [OF that(1)] by simp
    ultimately show ?thesis by blast
  qed
  have "f 0 \<le> f x" by (rule DERIV_nonneg_imp_nondecreasing [OF assms d])
  then show ?thesis by (simp add: f_def)
qed

lemma cos_upper_4:
  fixes x :: real
  assumes "0 \<le> x"
  shows "cos x \<le> 1 - x\<^sup>2 / 2 + x ^ 4 / 24"
proof -
  define f where "f = (\<lambda>u::real. 1 - u\<^sup>2 / 2 + u ^ 4 / 24 - cos u)"
  have d: "\<exists>y. (f has_real_derivative y) (at u) \<and> 0 \<le> y" if "0 \<le> u" "u \<le> x" for u
  proof -
    have "(f has_real_derivative (sin u - u + u ^ 3 / 6)) (at u)"
      unfolding f_def by (auto intro!: derivative_eq_intros simp add: power3_eq_cube)
    moreover have "0 \<le> sin u - u + u ^ 3 / 6" using sin_lower_3 [OF that(1)] by simp
    ultimately show ?thesis by blast
  qed
  have "f 0 \<le> f x" by (rule DERIV_nonneg_imp_nondecreasing [OF assms d])
  then show ?thesis by (simp add: f_def)
qed

subsection \<open>The area after a draw\<close>

lemma finishDrawing_area:
  assumes "snd (finishDrawing eng p s) = [Some b]"
  shows "areaKm2 (fst (finishDrawing eng p s))
    = Some (numberToFixed2
        (fmul (fmul \<bar>fsub (north b) (south b)\<bar> 111)
              (fmul (fmul \<bar>fsub (east b) (west b)\<bar> 111)
                    (mathCos eng (fdiv (fmul (fdiv (fadd (south b) (north b)) 2) MATH_PI) 180)))))"
  using assms
  by (auto simp add: finishDrawing_def Let_def getCenter_def getNorth_def getSouth_def
        getEast_def getWest_def split: option.splits if_splits)

lemma draw_area:
  assumes "min (lat q) (lat p) = S" and "max (lat q) (lat p) = N"
    and "min (lng q) (lng p) = W" and "max (lng q) (lng p) = E"
    and "W \<noteq> E" and "S \<noteq> N"
  shows "snd (finishDrawing eng p (fst (startDrawing q s)))
      = [Some \<lparr>west = W, south = S, east = E, north = N\<rparr>]"
    and "areaKm2 (fst (finishDrawing eng p (fst (startDrawing q s))))
      = Some (numberToFixed2
          (fmul (fmul \<bar>fsub N S\<bar> 111)
                (fmul (fmul \<bar>fsub E W\<bar> 111)
                      (mathCos eng (fdiv (fmul (fdiv (fadd S N) 2) MATH_PI) 180)))))"
  using assms
  by (simp_all add: finishDrawing_def startDrawing_def Let_def latLngBounds_def getCenter_def
        getNorth_def getSouth_def getEast_def getWest_def)

lemma numberToFixed2_rounds:
  assumes "\<bar>x\<bar> < 10 ^ 21"
  shows "\<exists>n::int. numberToFixed2 x = double (of_int n / 100) \<and> \<bar>of_int n / 100 - x\<bar> \<le> 1 / 200"
proof (cases "x < 0")
  case True
  define n where "n = \<lfloor>- x * 100 + 1 / 2\<rfloor>"
  have val: "numberToFixed2 x = double (- (of_int n / 100))"
    using assms True by (simp add: numberToFixed2_def n_def)
  have "of_int n \<le> - x * 100 + 1 / 2" "- x * 100 + 1 / 2 < of_int n + 1"
    unfolding n_def by linarith+
  then have "\<bar>- (of_int n / 100) - x\<bar> \<le> 1 / 200" by linarith
  moreover have "- (of_int n / 100 :: real) = of_int (- n) / 100" by simp
  ultimately show ?thesis unfolding val by metis
next
  case False
  define n where "n = \<lfloor>x * 100 + 1 / 2\<rfloor>"
  have val: "numberToFixed2 x = double (of_int n / 100)"
    using assms False by (simp add: numberToFixed2_def n_def)
  have "of_int n \<le> x * 100 + 1 / 2" "x * 100 + 1 / 2 < of_int n + 1"
    unfolding n_def by linarith+
  then have "\<bar>of_int n / 100 - x\<bar> \<le> 1 / 200" by linarith
  then show ?thesis unfolding val by blast
qed

subsection \<open>Two draws, operation by operation\<close>

lemma double_005: "double (5 / 100) = 3602879701896397 / 72057594037927936"
  by (rule double_eq [where e = "-5" and q = "36028797018963968 / 5" and m = "7205759403792794"])
     (simp_all add: pow2_def roundEven_def Let_def)

lemma double_minus_005: "double (- (5 / 100)) = - (3602879701896397 / 72057594037927936)"
  by (rule double_eq [where e = "-5" and q = "- (36028797018963968 / 5)" and m = "-7205759403792794"])
     (simp_all add: pow2_def roundEven_def Let_def)

lemma double_015: "double (15 / 100) = 5404319552844595 / 36028797018963968"
  by (rule double_eq [where e = "-3" and q = "27021597764222976 / 5" and m = "5404319552844595"])
     (simp_all add: pow2_def roundEven_def Let_def)

lemma tie_d1: "fsub (3602879701896397 / 72057594037927936) (- (3602879701896397 / 72057594037927936)) = 3602879701896397 / 36028797018963968"
  unfolding fsub_def by (rule double_eq [where e = "-4" and q = "7205759403792794" and m = "7205759403792794"])
     (simp_all add: pow2_def roundEven_def Let_def)

lemma tie_dLat: "fmul \<bar>3602879701896397 / 36028797018963968\<bar> 111 = 1562186120744141 / 140737488355328"
  unfolding fmul_def by (rule double_eq [where e = "3" and q = "399919646910500067 / 64" and m = "6248744482976564"])
     (simp_all add: pow2_def roundEven_def Let_def)

lemma tie_sum: "fadd (- (3602879701896397 / 72057594037927936)) (3602879701896397 / 72057594037927936) = 0"
  by (simp add: fadd_def double_def)

lemma tie_center: "fdiv 0 2 = 0"
  by (simp add: fdiv_def double_def)

lemma tie_times_pi: "fmul 0 MATH_PI = 0"
  by (simp add: fmul_def MATH_PI_def double_def)

lemma tie_theta: "fdiv 0 180 = 0"
  by (simp add: fdiv_def double_def)

lemma tie_d2: "fsub (5404319552844595 / 36028797018963968) 0 = 5404319552844595 / 36028797018963968"
  unfolding fsub_def by (rule double_eq [where e = "-3" and q = "5404319552844595" and m = "5404319552844595"])
     (simp_all add: pow2_def roundEven_def Let_def)

lemma tie_dLng1: "fmul \<bar>5404319552844595 / 36028797018963968\<bar> 111 = 2343279181116211 / 140737488355328"
  unfolding fmul_def by (rule double_eq [where e = "4" and q = "599879470365750045 / 128" and m = "4686558362232422"])
     (simp_all add: pow2_def roundEven_def Let_def)

lemma double_one: "double 1 = 1"
  by (rule double_eq [where e = "0" and q = "4503599627370496" and m = "4503599627370496"])
     (simp_all add: pow2_def roundEven_def Let_def)

lemma tie_dLng: "fmul (2343279181116211 / 140737488355328) 1 = 2343279181116211 / 140737488355328"
  unfolding fmul_def by (rule double_eq [where e = "4" and q = "4686558362232422" and m = "4686558362232422"])
     (simp_all add: pow2_def roundEven_def Let_def)

lemma tie_product: "fmul (1562186120744141 / 140737488355328) (2343279181116211 / 140737488355328) = 3251299863798743 / 17592186044416"
  unfolding fmul_def by (rule double_eq [where e = "7" and q = "3660638213768441044306318369751 / 562949953421312" and m = "6502599727597486"])
     (simp_all add: pow2_def roundEven_def Let_def)

lemma double_18481: "double (18481 / 100) = 3251211902868521 / 17592186044416"
  by (rule double_eq [where e = "7" and q = "162560595143426048 / 25" and m = "6502423805737042"])
     (simp_all add: pow2_def roundEven_def Let_def)

lemma double_18482: "double (18482 / 100) = 3251387824728965 / 17592186044416"
  by (rule double_eq [where e = "7" and q = "162569391236448256 / 25" and m = "6502775649457930"])
     (simp_all add: pow2_def roundEven_def Let_def)

lemma double_1850: "double (1850 / 100) = 37 / 2"
  by (rule double_eq [where e = "4" and q = "5207287069147136" and m = "5207287069147136"])
     (simp_all add: pow2_def roundEven_def Let_def)

lemma double_1852: "double (1852 / 100) = 5212916568681349 / 281474976710656"
  by (rule double_eq [where e = "4" and q = "130322914217033728 / 25" and m = "5212916568681349"])
     (simp_all add: pow2_def roundEven_def Let_def)

lemma double_7380: "double (7380 / 100) = 5193213320311603 / 70368744177664"
  by (rule double_eq [where e = "6" and q = "25966066601558016 / 5" and m = "5193213320311603"])
     (simp_all add: pow2_def roundEven_def Let_def)

lemma double_7382: "double (7382 / 100) = 1298655173798789 / 17592186044416"
  by (rule double_eq [where e = "6" and q = "129865517379878912 / 25" and m = "5194620695195156"])
     (simp_all add: pow2_def roundEven_def Let_def)

lemma ex_d1: "fsub (5212916568681349 / 281474976710656) (37 / 2) = 5629499534213 / 281474976710656"
  unfolding fsub_def by (rule double_eq [where e = "-6" and q = "5764607523034112" and m = "5764607523034112"])
     (simp_all add: pow2_def roundEven_def Let_def)

lemma ex_dLat: "fmul \<bar>5629499534213 / 281474976710656\<bar> 111 = 624874448297643 / 281474976710656"
  unfolding fmul_def by (rule double_eq [where e = "1" and q = "4998995586381144" and m = "4998995586381144"])
     (simp_all add: pow2_def roundEven_def Let_def)

lemma ex_sum: "fadd (37 / 2) (5212916568681349 / 281474976710656) = 2605050909457121 / 70368744177664"
  unfolding fadd_def by (rule double_eq [where e = "5" and q = "10420203637828485 / 2" and m = "5210101818914242"])
     (simp_all add: pow2_def roundEven_def Let_def)

lemma ex_center: "fdiv (2605050909457121 / 70368744177664) 2 = 2605050909457121 / 140737488355328"
  unfolding fdiv_def by (rule double_eq [where e = "4" and q = "5210101818914242" and m = "5210101818914242"])
     (simp_all add: pow2_def roundEven_def Let_def)

lemma ex_times_pi: "fmul (2605050909457121 / 140737488355328) MATH_PI = 8184008799377901 / 140737488355328"
  unfolding fmul_def MATH_PI_def by (rule double_eq [where e = "5" and q = "2303593686204698356412119065155 / 281474976710656" and m = "8184008799377901"])
     (simp_all add: pow2_def roundEven_def Let_def)

lemma ex_theta: "fdiv (8184008799377901 / 140737488355328) 180 = 2909869795334365 / 9007199254740992"
  unfolding fdiv_def by (rule double_eq [where e = "-2" and q = "29098697953343648 / 5" and m = "5819739590668730"])
     (simp_all add: pow2_def roundEven_def Let_def)

lemma ex_d2: "fsub (1298655173798789 / 17592186044416) (5193213320311603 / 70368744177664) = 1407374883553 / 70368744177664"
  unfolding fsub_def by (rule double_eq [where e = "-6" and q = "5764607523033088" and m = "5764607523033088"])
     (simp_all add: pow2_def roundEven_def Let_def)

lemma ex_dLng1: "fmul \<bar>1407374883553 / 70368744177664\<bar> 111 = 156218612074383 / 70368744177664"
  unfolding fmul_def by (rule double_eq [where e = "1" and q = "4998995586380256" and m = "4998995586380256"])
     (simp_all add: pow2_def roundEven_def Let_def)

lemma double_467: "double (467 / 100) = 2628976282477527 / 562949953421312"
  by (rule double_eq [where e = "2" and q = "131448814123876352 / 25" and m = "5257952564955054"])
     (simp_all add: pow2_def roundEven_def Let_def)

text \<open>
  The draw from (-0.05, 0) to (0.05, 0.15). The exact product of the formula is just
  above 184.815; the product of the doubles is just below it.
\<close>

lemma tie_draw:
  "snd (finishDrawing sample_engine \<lparr>lat = double (5 / 100), lng = double (15 / 100)\<rparr>
          (fst (startDrawing \<lparr>lat = double (- (5 / 100)), lng = 0\<rparr> mounted)))
     = [Some \<lparr>west = 0, south = double (- (5 / 100)), east = double (15 / 100),
              north = double (5 / 100)\<rparr>]"
  "areaKm2 (fst (finishDrawing sample_engine \<lparr>lat = double (5 / 100), lng = double (15 / 100)\<rparr>
                   (fst (startDrawing \<lparr>lat = double (- (5 / 100)), lng = 0\<rparr> mounted))))
     = Some (double (18481 / 100))"
proof -
  have cos0: "mathCos sample_engine 0 = 1"
    by (simp add: sample_engine_def double_one)
  have prod: "fmul (fmul \<bar>fsub (3602879701896397 / 72057594037927936) (- (3602879701896397 / 72057594037927936))\<bar> 111)
                (fmul (fmul \<bar>fsub (5404319552844595 / 36028797018963968) 0\<bar> 111)
                      (mathCos sample_engine
                         (fdiv (fmul (fdiv (fadd (- (3602879701896397 / 72057594037927936)) (3602879701896397 / 72057594037927936)) 2) MATH_PI) 180)))
      = 3251299863798743 / 17592186044416"
    by (simp only: tie_d1 tie_dLat tie_sum tie_center tie_times_pi tie_theta cos0 tie_d2
          tie_dLng1 tie_dLng tie_product)
  have "\<lfloor>(3251299863798743 / 17592186044416) * 100 + 1 / 2 :: real\<rfloor> = 18481"
    by (simp add: floor_eq_iff)
  then have fixed: "numberToFixed2 (3251299863798743 / 17592186044416) = double (18481 / 100)"
    by (simp add: numberToFixed2_def)
  have corners: "min (lat \<lparr>lat = - (3602879701896397 / 72057594037927936), lng = 0 :: real\<rparr>) (lat \<lparr>lat = 3602879701896397 / 72057594037927936, lng = 5404319552844595 / 36028797018963968 :: real\<rparr>) = - (3602879701896397 / 72057594037927936)"
    "max (lat \<lparr>lat = - (3602879701896397 / 72057594037927936), lng = 0 :: real\<rparr>) (lat \<lparr>lat = 3602879701896397 / 72057594037927936, lng = 5404319552844595 / 36028797018963968 :: real\<rparr>) = 3602879701896397 / 72057594037927936"
    "min (lng \<lparr>lat = - (3602879701896397 / 72057594037927936), lng = 0 :: real\<rparr>) (lng \<lparr>lat = 3602879701896397 / 72057594037927936, lng = 5404319552844595 / 36028797018963968 :: real\<rparr>) = 0"
    "max (lng \<lparr>lat = - (3602879701896397 / 72057594037927936), lng = 0 :: real\<rparr>) (lng \<lparr>lat = 3602879701896397 / 72057594037927936, lng = 5404319552844595 / 36028797018963968 :: real\<rparr>) = 5404319552844595 / 36028797018963968"
    by simp_all
  have nd: "(0 :: real) \<noteq> 5404319552844595 / 36028797018963968" "- (3602879701896397 / 72057594037927936) \<noteq> (3602879701896397 / 72057594037927936 :: real)"
    by simp_all
  note d = draw_area [OF corners nd, of sample_engine mounted]
  show "snd (finishDrawing sample_engine \<lparr>lat = double (5 / 100), lng = double (15 / 100)\<rparr>
          (fst (startDrawing \<lparr>lat = double (- (5 / 100)), lng = 0\<rparr> mounted)))
     = [Some \<lparr>west = 0, south = double (- (5 / 100)), east = double (15 / 100),
              north = double (5 / 100)\<rparr>]"
    unfolding double_005 double_minus_005 double_015 by (rule d(1))
  show "areaKm2 (fst (finishDrawing sample_engine \<lparr>lat = double (5 / 100), lng = double (15 / 100)\<rparr>
                   (fst (startDrawing \<lparr>lat = double (- (5 / 100)), lng = 0\<rparr> mounted))))
     = Some (double (18481 / 100))"
    unfolding double_005 double_minus_005 double_015 d(2) prod fixed ..
qed

lemma tie_exact:
  "18482 / 100 - 1 / 200
     < \<bar>double (5 / 100) - double (- (5 / 100))\<bar> * 111 * \<bar>double (15 / 100) - 0\<bar> * 111
         * cos ((double (5 / 100) + double (- (5 / 100))) / 2 * pi / 180)"
  "\<bar>double (5 / 100) - double (- (5 / 100))\<bar> * 111 * \<bar>double (15 / 100) - 0\<bar> * 111
         * cos ((double (5 / 100) + double (- (5 / 100))) / 2 * pi / 180)
     < 18482 / 100 + 1 / 200"
  "numberToFixed2
     (\<bar>double (5 / 100) - double (- (5 / 100))\<bar> * 111 * \<bar>double (15 / 100) - 0\<bar> * 111
         * cos ((double (5 / 100) + double (- (5 / 100))) / 2 * pi / 180))
     = double (18482 / 100)"
  "double (18481 / 100) \<noteq> double (18482 / 100)"
proof -
  have val: "\<bar>double (5 / 100) - double (- (5 / 100))\<bar> * 111 * \<bar>double (15 / 100) - 0\<bar> * 111
         * cos ((double (5 / 100) + double (- (5 / 100))) / 2 * pi / 180) = 239903585977528546480824000477753015 / 1298074214633706907132624082305024"
    unfolding double_005 double_minus_005 double_015 by simp
  show "18482 / 100 - 1 / 200
     < \<bar>double (5 / 100) - double (- (5 / 100))\<bar> * 111 * \<bar>double (15 / 100) - 0\<bar> * 111
         * cos ((double (5 / 100) + double (- (5 / 100))) / 2 * pi / 180)"
    unfolding val by simp
  show "\<bar>double (5 / 100) - double (- (5 / 100))\<bar> * 111 * \<bar>double (15 / 100) - 0\<bar> * 111
         * cos ((double (5 / 100) + double (- (5 / 100))) / 2 * pi / 180)
     < 18482 / 100 + 1 / 200"
    unfolding val by simp
  have "\<lfloor>(239903585977528546480824000477753015 / 1298074214633706907132624082305024) * 100 + 1 / 2 :: real\<rfloor> = 18482"
    by (simp add: floor_eq_iff)
  then show "numberToFixed2
     (\<bar>double (5 / 100) - double (- (5 / 100))\<bar> * 111 * \<bar>double (15 / 100) - 0\<bar> * 111
         * cos ((double (5 / 100) + double (- (5 / 100))) / 2 * pi / 180))
     = double (18482 / 100)"
    unfolding val by (simp add: numberToFixed2_def)
  show "double (18481 / 100) \<noteq> double (18482 / 100)"
    unfolding double_18481 double_18482 by simp
qed

text \<open>
  The draw from (18.50, 73.80) to (18.52, 73.82), for an engine whose cosine is within
  \<open>10^-6\<close> of the real one. The operations before the cosine are exact evaluations;
  after it, bounds.
\<close>

lemma example_draw:
  assumes accurate: "\<And>x. \<bar>mathCos eng x - cos x\<bar> \<le> 1 / 10 ^ 6"
  shows "snd (finishDrawing eng \<lparr>lat = double (1852 / 100), lng = double (7382 / 100)\<rparr>
            (fst (startDrawing \<lparr>lat = double (1850 / 100), lng = double (7380 / 100)\<rparr> s)))
       = [Some \<lparr>west = double (7380 / 100), south = double (1850 / 100),
                east = double (7382 / 100), north = double (1852 / 100)\<rparr>]"
    and "areaKm2 (fst (finishDrawing eng \<lparr>lat = double (1852 / 100), lng = double (7382 / 100)\<rparr>
                    (fst (startDrawing \<lparr>lat = double (1850 / 100), lng = double (7380 / 100)\<rparr> s))))
       = Some (double (467 / 100))"
proof -
  define theta :: real where "theta = 2909869795334365 / 9007199254740992"
  define c where "c = mathCos eng theta"
  have th0: "0 \<le> theta" by (simp add: theta_def)
  have "9478 / 10000 \<le> 1 - theta\<^sup>2 / 2" by (simp add: theta_def power2_eq_square)
  also have "\<dots> \<le> cos theta" by (rule cos_lower_2 [OF th0])
  finally have cos_lo: "9478 / 10000 \<le> cos theta" .
  have "cos theta \<le> 1 - theta\<^sup>2 / 2 + theta ^ 4 / 24" by (rule cos_upper_4 [OF th0])
  also have "\<dots> \<le> 9483 / 10000"
    by (simp add: theta_def power2_eq_square power_numeral_reduce)
  finally have cos_hi: "cos theta \<le> 9483 / 10000" .
  have "\<bar>mathCos eng theta - cos theta\<bar> \<le> 1 / 1000000"
    using accurate [of theta] by simp
  then have c_lo: "9477 / 10000 \<le> c" and c_hi: "c \<le> 9484 / 10000"
    using cos_lo cos_hi unfolding c_def by linarith+
  have b_in: "21038 / 10000 \<le> (156218612074383 / 70368744177664) * c" "(156218612074383 / 70368744177664) * c \<le> 21055 / 10000"
    using c_lo c_hi by linarith+
  define dLng where "dLng = fmul ((156218612074383 / 70368744177664)) c"
  have dLng_lo: "21037 / 10000 \<le> dLng" and dLng_hi: "dLng \<le> 21056 / 10000"
  proof -
    have lo: "(1 :: real) / 1024 \<le> 21038 / 10000" by simp
    note bounds = double_between [OF lo b_in]
    show "21037 / 10000 \<le> dLng" using bounds(1) unfolding dLng_def fmul_def by simp
    show "dLng \<le> 21056 / 10000" using bounds(2) unfolding dLng_def fmul_def by simp
  qed
  have p_in: "467 / 100 \<le> (624874448297643 / 281474976710656) * dLng" "(624874448297643 / 281474976710656) * dLng \<le> 46745 / 10000"
    using dLng_lo dLng_hi by linarith+
  define product where "product = fmul ((624874448297643 / 281474976710656)) dLng"
  have p_lo: "4669 / 1000 \<le> product" and p_hi: "product \<le> 46746 / 10000"
  proof -
    have lo: "(1 :: real) / 1024 \<le> 467 / 100" by simp
    note bounds = double_between [OF lo p_in]
    show "4669 / 1000 \<le> product" using bounds(1) unfolding product_def fmul_def by simp
    show "product \<le> 46746 / 10000" using bounds(2) unfolding product_def fmul_def by simp
  qed
  have "\<lfloor>product * 100 + 1 / 2\<rfloor> = 467"
    using p_lo p_hi by (simp add: floor_eq_iff)
  moreover have "\<bar>product\<bar> < 10 ^ 21" "\<not> product < 0"
    using p_lo p_hi by simp_all
  ultimately have fixed: "numberToFixed2 product = double (467 / 100)"
    by (simp add: numberToFixed2_def)
  have formula: "fmul (fmul \<bar>fsub (5212916568681349 / 281474976710656) (37 / 2)\<bar> 111)
                (fmul (fmul \<bar>fsub (1298655173798789 / 17592186044416) (5193213320311603 / 70368744177664)\<bar> 111)
                      (mathCos eng (fdiv (fmul (fdiv (fadd (37 / 2) (5212916568681349 / 281474976710656)) 2) MATH_PI) 180)))
      = product"
    unfolding product_def dLng_def c_def theta_def
    by (simp only: ex_d1 ex_dLat ex_sum ex_center ex_times_pi ex_theta ex_d2 ex_dLng1)
  have corners: "min (lat \<lparr>lat = 37 / 2, lng = 5193213320311603 / 70368744177664 :: real\<rparr>) (lat \<lparr>lat = 5212916568681349 / 281474976710656, lng = 1298655173798789 / 17592186044416 :: real\<rparr>) = 37 / 2"
    "max (lat \<lparr>lat = 37 / 2, lng = 5193213320311603 / 70368744177664 :: real\<rparr>) (lat \<lparr>lat = 5212916568681349 / 281474976710656, lng = 1298655173798789 / 17592186044416 :: real\<rparr>) = 5212916568681349 / 281474976710656"
    "min (lng \<lparr>lat = 37 / 2, lng = 5193213320311603 / 70368744177664 :: real\<rparr>) (lng \<lparr>lat = 5212916568681349 / 281474976710656, lng = 1298655173798789 / 17592186044416 :: real\<rparr>) = 5193213320311603 / 70368744177664"
    "max (lng \<lparr>lat = 37 / 2, lng = 5193213320311603 / 70368744177664 :: real\<rparr>) (lng \<lparr>lat = 5212916568681349 / 281474976710656, lng = 1298655173798789 / 17592186044416 :: real\<rparr>) = 1298655173798789 / 17592186044416"
    by simp_all
  have nd: "(5193213320311603 / 70368744177664 :: real) \<noteq> 1298655173798789 / 17592186044416" "(37 / 2 :: real) \<noteq> 5212916568681349 / 281474976710656"
    by simp_all
  note d = draw_area [OF corners nd, of eng s]
  show "snd (finishDrawing eng \<lparr>lat = double (1852 / 100), lng = double (7382 / 100)\<rparr>
            (fst (startDrawing \<lparr>lat = double (1850 / 100), lng = double (7380 / 100)\<rparr> s)))
       = [Some \<lparr>west = double (7380 / 100), south = double (1850 / 100),
                east = double (7382 / 100), north = double (1852 / 100)\<rparr>]"
    unfolding double_1850 double_1852 double_7380 double_7382 by (rule d(1))
  show "areaKm2 (fst (finishDrawing eng \<lparr>lat = double (1852 / 100), lng = double (7382 / 100)\<rparr>
                    (fst (startDrawing \<lparr>lat = double (1850 / 100), lng = double (7380 / 100)\<rparr> s))))
       = Some (double (467 / 100))"
    unfolding double_1850 double_1852 double_7380 double_7382 d(2) formula fixed ..
qed

text \<open>
  C4, as the code has it. The area shown after a draw is \<open>Number(x.toFixed(2))\<close>,
  where \<open>x\<close> is the product
  \<open>(|north - south| * 111) * ((|east - west| * 111) * Math.cos(((south + north) / 2) * Math.PI / 180))\<close>
  of the emitted bounds in double arithmetic, each operation rounded to the nearest
  double. This holds for the bounds any pointer-up emits, and every bounds with
  west < east and south < north is emitted by the draw from its south-west to its
  north-east corner. The result is the double nearest to a multiple of 1/100 that is
  within 1/200 of \<open>x\<close>. For the bounds
  \<open>{west: 73.80, south: 18.50, east: 73.82, north: 18.52}\<close>, in an engine whose
  cosine is within \<open>10^-6\<close> of the real cosine, the area is the double written 4.67.
\<close>

theorem C4_area_of_bounds:
  "(\<forall>b. snd (finishDrawing eng p s) = [Some b] \<longrightarrow>
        areaKm2 (fst (finishDrawing eng p s))
          = Some (numberToFixed2
               (fmul (fmul \<bar>fsub (north b) (south b)\<bar> 111)
                     (fmul (fmul \<bar>fsub (east b) (west b)\<bar> 111)
                           (mathCos eng
                              (fdiv (fmul (fdiv (fadd (south b) (north b)) 2) MATH_PI) 180))))))
   \<and> (\<forall>b :: AOIBounds. west b < east b \<and> south b < north b \<longrightarrow>
        snd (finishDrawing eng \<lparr>lat = north b, lng = east b\<rparr>
               (fst (startDrawing \<lparr>lat = south b, lng = west b\<rparr> s))) = [Some b]
        \<and> areaKm2 (fst (finishDrawing eng \<lparr>lat = north b, lng = east b\<rparr>
                          (fst (startDrawing \<lparr>lat = south b, lng = west b\<rparr> s))))
          = Some (numberToFixed2
               (fmul (fmul \<bar>fsub (north b) (south b)\<bar> 111)
                     (fmul (fmul \<bar>fsub (east b) (west b)\<bar> 111)
                           (mathCos eng
                              (fdiv (fmul (fdiv (fadd (south b) (north b)) 2) MATH_PI) 180))))))
   \<and> (\<forall>x. \<bar>x\<bar> < 10 ^ 21 \<longrightarrow>
        (\<exists>n::int. numberToFixed2 x = double (of_int n / 100) \<and> \<bar>of_int n / 100 - x\<bar> \<le> 1 / 200))
   \<and> ((\<forall>x. \<bar>mathCos eng x - cos x\<bar> \<le> 1 / 10 ^ 6) \<longrightarrow>
        snd (finishDrawing eng \<lparr>lat = double (1852 / 100), lng = double (7382 / 100)\<rparr>
            (fst (startDrawing \<lparr>lat = double (1850 / 100), lng = double (7380 / 100)\<rparr> s)))
          = [Some \<lparr>west = double (7380 / 100), south = double (1850 / 100),
                east = double (7382 / 100), north = double (1852 / 100)\<rparr>]
        \<and> areaKm2 (fst (finishDrawing eng \<lparr>lat = double (1852 / 100), lng = double (7382 / 100)\<rparr>
            (fst (startDrawing \<lparr>lat = double (1850 / 100), lng = double (7380 / 100)\<rparr> s))))
          = Some (double (467 / 100)))
   \<and> \<bar>double (467 / 100) - 467 / 100\<bar> \<le> 1 / 10 ^ 15"
proof -
  have emitted: "\<forall>b. snd (finishDrawing eng p s) = [Some b] \<longrightarrow>
        areaKm2 (fst (finishDrawing eng p s))
          = Some (numberToFixed2
               (fmul (fmul \<bar>fsub (north b) (south b)\<bar> 111)
                     (fmul (fmul \<bar>fsub (east b) (west b)\<bar> 111)
                           (mathCos eng
                              (fdiv (fmul (fdiv (fadd (south b) (north b)) 2) MATH_PI) 180)))))"
    using finishDrawing_area by blast
  have drawn: "snd (finishDrawing eng \<lparr>lat = north b, lng = east b\<rparr>
               (fst (startDrawing \<lparr>lat = south b, lng = west b\<rparr> s))) = [Some b]
        \<and> areaKm2 (fst (finishDrawing eng \<lparr>lat = north b, lng = east b\<rparr>
                          (fst (startDrawing \<lparr>lat = south b, lng = west b\<rparr> s))))
          = Some (numberToFixed2
               (fmul (fmul \<bar>fsub (north b) (south b)\<bar> 111)
                     (fmul (fmul \<bar>fsub (east b) (west b)\<bar> 111)
                           (mathCos eng
                              (fdiv (fmul (fdiv (fadd (south b) (north b)) 2) MATH_PI) 180)))))"
    if "west b < east b \<and> south b < north b" for b :: AOIBounds
  proof -
    have corners:
      "min (lat \<lparr>lat = south b, lng = west b\<rparr>) (lat \<lparr>lat = north b, lng = east b\<rparr>) = south b"
      "max (lat \<lparr>lat = south b, lng = west b\<rparr>) (lat \<lparr>lat = north b, lng = east b\<rparr>) = north b"
      "min (lng \<lparr>lat = south b, lng = west b\<rparr>) (lng \<lparr>lat = north b, lng = east b\<rparr>) = west b"
      "max (lng \<lparr>lat = south b, lng = west b\<rparr>) (lng \<lparr>lat = north b, lng = east b\<rparr>) = east b"
      using that by simp_all
    have nd: "west b \<noteq> east b" "south b \<noteq> north b" using that by simp_all
    show ?thesis using draw_area [OF corners nd, of eng s] by simp
  qed
  have rounded: "\<forall>x. \<bar>x\<bar> < 10 ^ 21 \<longrightarrow>
        (\<exists>n::int. numberToFixed2 x = double (of_int n / 100) \<and> \<bar>of_int n / 100 - x\<bar> \<le> 1 / 200)"
    using numberToFixed2_rounds by blast
  have example: "(\<forall>x. \<bar>mathCos eng x - cos x\<bar> \<le> 1 / 10 ^ 6) \<longrightarrow>
        snd (finishDrawing eng \<lparr>lat = double (1852 / 100), lng = double (7382 / 100)\<rparr>
            (fst (startDrawing \<lparr>lat = double (1850 / 100), lng = double (7380 / 100)\<rparr> s)))
          = [Some \<lparr>west = double (7380 / 100), south = double (1850 / 100),
                east = double (7382 / 100), north = double (1852 / 100)\<rparr>]
        \<and> areaKm2 (fst (finishDrawing eng \<lparr>lat = double (1852 / 100), lng = double (7382 / 100)\<rparr>
            (fst (startDrawing \<lparr>lat = double (1850 / 100), lng = double (7380 / 100)\<rparr> s))))
          = Some (double (467 / 100))"
    using example_draw [of eng s] by blast
  have near: "\<bar>double (467 / 100) - 467 / 100\<bar> \<le> 1 / 10 ^ 15"
    unfolding double_467 by simp
  from emitted drawn rounded example near show ?thesis by blast
qed

theorem C4_area_of_bounds_witness:
  "(\<forall>x. \<bar>mathCos sample_engine x - cos x\<bar> \<le> 1 / 10 ^ 6)
   \<and> snd (finishDrawing sample_engine \<lparr>lat = double (1852 / 100), lng = double (7382 / 100)\<rparr>
            (fst (startDrawing \<lparr>lat = double (1850 / 100), lng = double (7380 / 100)\<rparr> mounted)))
       = [Some \<lparr>west = double (7380 / 100), south = double (1850 / 100),
                east = double (7382 / 100), north = double (1852 / 100)\<rparr>]
   \<and> areaKm2 (fst (finishDrawing sample_engine \<lparr>lat = double (1852 / 100), lng = double (7382 / 100)\<rparr>
            (fst (startDrawing \<lparr>lat = double (1850 / 100), lng = double (7380 / 100)\<rparr> mounted))))
       = Some (double (467 / 100))
   \<and> areaKm2 (fst (finishDrawing sample_engine \<lparr>lat = double (1852 / 100), lng = double (7382 / 100)\<rparr>
            (fst (startDrawing \<lparr>lat = double (1850 / 100), lng = double (7380 / 100)\<rparr> mounted))))
       = Some (numberToFixed2
            (fmul (fmul \<bar>fsub (north \<lparr>west = double (7380 / 100), south = double (1850 / 100),
                east = double (7382 / 100), north = double (1852 / 100)\<rparr>) (south \<lparr>west = double (7380 / 100), south = double (1850 / 100),
                east = double (7382 / 100), north = double (1852 / 100)\<rparr>)\<bar> 111)
                     (fmul (fmul \<bar>fsub (east \<lparr>west = double (7380 / 100), south = double (1850 / 100),
                east = double (7382 / 100), north = double (1852 / 100)\<rparr>) (west \<lparr>west = double (7380 / 100), south = double (1850 / 100),
                east = double (7382 / 100), north = double (1852 / 100)\<rparr>)\<bar> 111)
                           (mathCos sample_engine
                              (fdiv (fmul (fdiv (fadd (south \<lparr>west = double (7380 / 100), south = double (1850 / 100),
                east = double (7382 / 100), north = double (1852 / 100)\<rparr>) (north \<lparr>west = double (7380 / 100), south = double (1850 / 100),
                east = double (7382 / 100), north = double (1852 / 100)\<rparr>)) 2) MATH_PI) 180)))))
   \<and> areaKm2 (fst (finishDrawing sample_engine \<lparr>lat = 2, lng = 3\<rparr>
                      (fst (startDrawing \<lparr>lat = 1, lng = 1\<rparr> mounted))))
       = Some (numberToFixed2
            (fmul (fmul \<bar>fsub (north \<lparr>west = 1, south = 1, east = 3, north = 2 :: real\<rparr>) (south \<lparr>west = 1, south = 1, east = 3, north = 2 :: real\<rparr>)\<bar> 111)
                     (fmul (fmul \<bar>fsub (east \<lparr>west = 1, south = 1, east = 3, north = 2 :: real\<rparr>) (west \<lparr>west = 1, south = 1, east = 3, north = 2 :: real\<rparr>)\<bar> 111)
                           (mathCos sample_engine
                              (fdiv (fmul (fdiv (fadd (south \<lparr>west = 1, south = 1, east = 3, north = 2 :: real\<rparr>) (north \<lparr>west = 1, south = 1, east = 3, north = 2 :: real\<rparr>)) 2) MATH_PI) 180)))))
   \<and> \<bar>1 / 3 :: real\<bar> < 10 ^ 21
   \<and> (\<exists>n::int. numberToFixed2 (1 / 3) = double (of_int n / 100) \<and> \<bar>of_int n / 100 - (1 / 3 :: real)\<bar> \<le> 1 / 200)"
proof -
  note th = C4_area_of_bounds
      [where eng = sample_engine
         and p = "\<lparr>lat = double (1852 / 100), lng = double (7382 / 100)\<rparr>"
         and s = "fst (startDrawing \<lparr>lat = double (1850 / 100), lng = double (7380 / 100)\<rparr> mounted)"]
  note th' = C4_area_of_bounds [where eng = sample_engine and p = "\<lparr>lat = 0, lng = 0\<rparr>" and s = mounted]
  have acc: "\<forall>x. \<bar>mathCos sample_engine x - cos x\<bar> \<le> 1 / 10 ^ 6"
    using sample_engine_cosine by blast
  have ex: "snd (finishDrawing sample_engine \<lparr>lat = double (1852 / 100), lng = double (7382 / 100)\<rparr>
            (fst (startDrawing \<lparr>lat = double (1850 / 100), lng = double (7380 / 100)\<rparr> mounted)))
       = [Some \<lparr>west = double (7380 / 100), south = double (1850 / 100),
                east = double (7382 / 100), north = double (1852 / 100)\<rparr>]
   \<and> areaKm2 (fst (finishDrawing sample_engine \<lparr>lat = double (1852 / 100), lng = double (7382 / 100)\<rparr>
            (fst (startDrawing \<lparr>lat = double (1850 / 100), lng = double (7380 / 100)\<rparr> mounted))))
       = Some (double (467 / 100))"
    using th' acc by blast
  have a1: "areaKm2 (fst (finishDrawing sample_engine \<lparr>lat = double (1852 / 100), lng = double (7382 / 100)\<rparr>
            (fst (startDrawing \<lparr>lat = double (1850 / 100), lng = double (7380 / 100)\<rparr> mounted))))
       = Some (numberToFixed2
            (fmul (fmul \<bar>fsub (north \<lparr>west = double (7380 / 100), south = double (1850 / 100),
                east = double (7382 / 100), north = double (1852 / 100)\<rparr>) (south \<lparr>west = double (7380 / 100), south = double (1850 / 100),
                east = double (7382 / 100), north = double (1852 / 100)\<rparr>)\<bar> 111)
                     (fmul (fmul \<bar>fsub (east \<lparr>west = double (7380 / 100), south = double (1850 / 100),
                east = double (7382 / 100), north = double (1852 / 100)\<rparr>) (west \<lparr>west = double (7380 / 100), south = double (1850 / 100),
                east = double (7382 / 100), north = double (1852 / 100)\<rparr>)\<bar> 111)
                           (mathCos sample_engine
                              (fdiv (fmul (fdiv (fadd (south \<lparr>west = double (7380 / 100), south = double (1850 / 100),
                east = double (7382 / 100), north = double (1852 / 100)\<rparr>) (north \<lparr>west = double (7380 / 100), south = double (1850 / 100),
                east = double (7382 / 100), north = double (1852 / 100)\<rparr>)) 2) MATH_PI) 180)))))"
    using th ex by blast
  have nd: "west \<lparr>west = 1, south = 1, east = 3, north = 2 :: real\<rparr>
              < east \<lparr>west = 1, south = 1, east = 3, north = 2 :: real\<rparr>
      \<and> south \<lparr>west = 1, south = 1, east = 3, north = 2 :: real\<rparr>
              < north \<lparr>west = 1, south = 1, east = 3, north = 2 :: real\<rparr>"
    by simp
  have "areaKm2 (fst (finishDrawing sample_engine
            \<lparr>lat = north \<lparr>west = 1, south = 1, east = 3, north = 2 :: real\<rparr>,
             lng = east \<lparr>west = 1, south = 1, east = 3, north = 2 :: real\<rparr>\<rparr>
            (fst (startDrawing
               \<lparr>lat = south \<lparr>west = 1, south = 1, east = 3, north = 2 :: real\<rparr>,
                lng = west \<lparr>west = 1, south = 1, east = 3, north = 2 :: real\<rparr>\<rparr> mounted))))
       = Some (numberToFixed2
            (fmul (fmul \<bar>fsub (north \<lparr>west = 1, south = 1, east = 3, north = 2 :: real\<rparr>) (south \<lparr>west = 1, south = 1, east = 3, north = 2 :: real\<rparr>)\<bar> 111)
                     (fmul (fmul \<bar>fsub (east \<lparr>west = 1, south = 1, east = 3, north = 2 :: real\<rparr>) (west \<lparr>west = 1, south = 1, east = 3, north = 2 :: real\<rparr>)\<bar> 111)
                           (mathCos sample_engine
                              (fdiv (fmul (fdiv (fadd (south \<lparr>west = 1, south = 1, east = 3, north = 2 :: real\<rparr>) (north \<lparr>west = 1, south = 1, east = 3, north = 2 :: real\<rparr>)) 2) MATH_PI) 180)))))"
    using th' nd by blast
  then have a2: "areaKm2 (fst (finishDrawing sample_engine \<lparr>lat = 2, lng = 3\<rparr>
                      (fst (startDrawing \<lparr>lat = 1, lng = 1\<rparr> mounted))))
       = Some (numberToFixed2
            (fmul (fmul \<bar>fsub (north \<lparr>west = 1, south = 1, east = 3, north = 2 :: real\<rparr>) (south \<lparr>west = 1, south = 1, east = 3, north = 2 :: real\<rparr>)\<bar> 111)
                     (fmul (fmul \<bar>fsub (east \<lparr>west = 1, south = 1, east = 3, north = 2 :: real\<rparr>) (west \<lparr>west = 1, south = 1, east = 3, north = 2 :: real\<rparr>)\<bar> 111)
                           (mathCos sample_engine
                              (fdiv (fmul (fdiv (fadd (south \<lparr>west = 1, south = 1, east = 3, north = 2 :: real\<rparr>) (north \<lparr>west = 1, south = 1, east = 3, north = 2 :: real\<rparr>)) 2) MATH_PI) 180)))))"
    by (simp only: AOIBounds.simps)
  have small: "\<bar>1 / 3 :: real\<bar> < 10 ^ 21" by simp
  have a3: "\<exists>n::int. numberToFixed2 (1 / 3) = double (of_int n / 100) \<and> \<bar>of_int n / 100 - (1 / 3 :: real)\<bar> \<le> 1 / 200"
    using th' small by blast
  from acc ex a1 a2 small a3 show ?thesis by blast
qed

text \<open>
  C4 as stated fails where rounding the operations carries the product across a tie.
  For the draw from (-0.05, 0) to (0.05, 0.15) the emitted bounds are
  \<open>{west: 0, south: -0.05, east: 0.15, north: 0.05}\<close> and the area shown is the
  double written 184.81. The exact value of the claim's formula at these bounds lies
  above 184.815, so rounded to two decimals it is 184.82, which is another double.
\<close>

theorem C4_rounded_product_counterexample:
  "snd (finishDrawing sample_engine \<lparr>lat = double (5 / 100), lng = double (15 / 100)\<rparr>
            (fst (startDrawing \<lparr>lat = double (- (5 / 100)), lng = 0\<rparr> mounted)))
     = [Some \<lparr>west = 0, south = double (- (5 / 100)), east = double (15 / 100),
              north = double (5 / 100)\<rparr>]
   \<and> areaKm2 (fst (finishDrawing sample_engine \<lparr>lat = double (5 / 100), lng = double (15 / 100)\<rparr>
            (fst (startDrawing \<lparr>lat = double (- (5 / 100)), lng = 0\<rparr> mounted))))
     = Some (double (18481 / 100))
   \<and> 18482 / 100 - 1 / 200 < (\<bar>double (5 / 100) - double (- (5 / 100))\<bar> * 111 * \<bar>double (15 / 100) - 0\<bar> * 111
         * cos ((double (5 / 100) + double (- (5 / 100))) / 2 * pi / 180))
   \<and> (\<bar>double (5 / 100) - double (- (5 / 100))\<bar> * 111 * \<bar>double (15 / 100) - 0\<bar> * 111
         * cos ((double (5 / 100) + double (- (5 / 100))) / 2 * pi / 180)) < 18482 / 100 + 1 / 200
   \<and> numberToFixed2 (\<bar>double (5 / 100) - double (- (5 / 100))\<bar> * 111 * \<bar>double (15 / 100) - 0\<bar> * 111
         * cos ((double (5 / 100) + double (- (5 / 100))) / 2 * pi / 180)) = double (18482 / 100)
   \<and> double (18481 / 100) \<noteq> double (18482 / 100)"
  using tie_draw tie_exact by blast

end
